theory Spec2Isabelle
  imports Complex_Main
begin

section \<open>JavaScript numbers\<close>

text \<open>
  A JavaScript number is an IEEE 754 binary64 value.  A finite value is kept as the exact
  rational it denotes; every arithmetic result and every parsed literal is rounded to the
  nearest binary64 value (ties to even, overflow to an infinity, gradual underflow) by
  \<open>round_double\<close>.  The negative zero is identified with zero: the code below never
  distinguishes them (\<open>-0 !== 0\<close> is false, \<open>JSON.stringify(-0)\<close> is \<open>0\<close>) except
  through the sign of a quotient by zero, which is an infinity either way.
\<close>

datatype jsnum = NaN | PInf | NInf | Fin rat

definition pow2 :: "int \<Rightarrow> rat" where
  "pow2 k = (if 0 \<le> k then 2 ^ nat k else 1 / 2 ^ nat (- k))"

definition pow10 :: "int \<Rightarrow> rat" where
  "pow10 k = (if 0 \<le> k then 10 ^ nat k else 1 / 10 ^ nat (- k))"

text \<open>The binary exponent of a positive rational: \<open>log2_ge\<close> for \<open>1 \<le> x\<close>, \<open>log2_lt\<close> below.\<close>

function log2_ge :: "rat \<Rightarrow> nat" where
  "log2_ge x = (if 2 \<le> x then Suc (log2_ge (x / 2)) else 0)"
  by pat_completeness auto
termination
  by (relation "measure (\<lambda>x. nat \<lfloor>x\<rfloor>)") (auto, linarith)

function log2_lt :: "rat \<Rightarrow> nat" where
  "log2_lt x = (if 0 < x \<and> x < 1 then Suc (log2_lt (2 * x)) else 0)"
  by pat_completeness auto
termination
proof (relation "measure (\<lambda>x. nat \<lfloor>1 / x\<rfloor>)")
  show "wf (measure (\<lambda>x::rat. nat \<lfloor>1 / x\<rfloor>))" by simp
next
  fix x :: rat
  assume a: "0 < x \<and> x < 1"
  define y where "y = 1 / x"
  have y1: "1 < y" using a by (simp add: y_def)
  have fl: "1 \<le> \<lfloor>y\<rfloor>" using y1 by linarith
  have "y / 2 < of_int \<lfloor>y\<rfloor>" using y1 fl by linarith
  hence f2: "\<lfloor>y / 2\<rfloor> < \<lfloor>y\<rfloor>" by (simp add: floor_less_iff)
  have e: "1 / (2 * x) = y / 2" by (simp add: y_def)
  show "(2 * x, x) \<in> measure (\<lambda>x. nat \<lfloor>1 / x\<rfloor>)"
    unfolding in_measure e using f2 fl by (simp add: y_def)
qed

declare log2_ge.simps [simp del] log2_lt.simps [simp del]

definition round_half_even :: "rat \<Rightarrow> int" where
  "round_half_even x =
     (let f = \<lfloor>x\<rfloor>; d = x - of_int f
      in if d < 1 / 2 then f else if 1 / 2 < d then f + 1 else if even f then f else f + 1)"

text \<open>
  Rounding to binary64: 53 significant bits, exponents from \<open>-1022\<close> (below which the
  spacing stays \<open>2^-1074\<close>) to \<open>1023\<close>; a result of magnitude \<open>2^1024\<close> is an infinity.
\<close>

definition round_double :: "rat \<Rightarrow> jsnum" where
  "round_double q =
     (if q = 0 then Fin 0
      else
        let a = \<bar>q\<bar>;
            e = (if 1 \<le> a then int (log2_ge a) else - int (log2_lt a));
            u = pow2 (max e (- 1022) - 52);
            m = round_half_even (a / u)
        in if 1024 \<le> e \<or> (e = 1023 \<and> m = 9007199254740992)
           then (if 0 < q then PInf else NInf)
           else Fin (if 0 < q then of_int m * u else - (of_int m * u)))"

fun isFinite :: "jsnum \<Rightarrow> bool" where
  "isFinite (Fin q) = True"
| "isFinite _ = False"

text \<open>The operators \<open>-\<close>, \<open>/\<close> and \<open>*\<close> of the language, with the IEEE special cases.\<close>

fun num_sub :: "jsnum \<Rightarrow> jsnum \<Rightarrow> jsnum" where
  "num_sub (Fin a) (Fin b) = round_double (a - b)"
| "num_sub NaN _ = NaN"
| "num_sub _ NaN = NaN"
| "num_sub PInf PInf = NaN"
| "num_sub NInf NInf = NaN"
| "num_sub PInf _ = PInf"
| "num_sub NInf _ = NInf"
| "num_sub (Fin a) PInf = NInf"
| "num_sub (Fin a) NInf = PInf"

fun num_neg :: "jsnum \<Rightarrow> jsnum" where
  "num_neg (Fin a) = Fin (- a)"
| "num_neg PInf = NInf"
| "num_neg NInf = PInf"
| "num_neg NaN = NaN"

fun num_div :: "jsnum \<Rightarrow> jsnum \<Rightarrow> jsnum" where
  "num_div (Fin a) (Fin b) =
     (if b = 0 then (if a = 0 then NaN else if 0 < a then PInf else NInf)
      else round_double (a / b))"
| "num_div NaN _ = NaN"
| "num_div _ NaN = NaN"
| "num_div (Fin a) _ = Fin 0"
| "num_div PInf (Fin b) = (if 0 \<le> b then PInf else NInf)"
| "num_div NInf (Fin b) = (if 0 \<le> b then NInf else PInf)"
| "num_div _ _ = NaN"

fun num_mul :: "jsnum \<Rightarrow> jsnum \<Rightarrow> jsnum" where
  "num_mul (Fin a) (Fin b) = round_double (a * b)"
| "num_mul NaN _ = NaN"
| "num_mul _ NaN = NaN"
| "num_mul PInf (Fin b) = (if b = 0 then NaN else if 0 < b then PInf else NInf)"
| "num_mul NInf (Fin b) = (if b = 0 then NaN else if 0 < b then NInf else PInf)"
| "num_mul (Fin a) PInf = (if a = 0 then NaN else if 0 < a then PInf else NInf)"
| "num_mul (Fin a) NInf = (if a = 0 then NaN else if 0 < a then NInf else PInf)"
| "num_mul PInf PInf = PInf"
| "num_mul NInf NInf = PInf"
| "num_mul PInf NInf = NInf"
| "num_mul NInf PInf = NInf"

text \<open>
  \<open>Number(x.toFixed(2))\<close>.  For a finite \<open>x\<close> below \<open>10^21\<close> in magnitude, \<open>toFixed(2)\<close>
  writes the decimal \<open>n / 100\<close> where \<open>n\<close> is the integer nearest to \<open>100 * |x|\<close> (the larger
  one on a tie), with the sign of \<open>x\<close>, and \<open>Number\<close> reads it back as the nearest binary64
  value.  From \<open>10^21\<close> on, and for \<open>NaN\<close> and the infinities, \<open>toFixed\<close> writes what
  \<open>String(x)\<close> writes, which \<open>Number\<close> reads back as \<open>x\<close>.
\<close>

definition nearest_cents :: "rat \<Rightarrow> int" where
  "nearest_cents x = \<lfloor>\<bar>x\<bar> * 100 + 1 / 2\<rfloor>"

fun number_toFixed2 :: "jsnum \<Rightarrow> jsnum" where
  "number_toFixed2 (Fin x) =
     (if 10 ^ 21 \<le> \<bar>x\<bar> then Fin x
      else round_double ((if x < 0 then - 1 else 1) * (of_int (nearest_cents x) / 100)))"
| "number_toFixed2 x = x"

section \<open>Strings and numeric literals\<close>

text \<open>
  Strings are lists of 8-bit characters (code units below 256).  White space is what
  \<open>trim\<close> and \<open>Number\<close> strip among those: TAB, LF, VT, FF, CR, SP and NBSP.
\<close>

definition is_ws :: "char \<Rightarrow> bool" where
  "is_ws c = (of_char c \<in> {9, 10, 11, 12, 13, 32, 160 :: nat})"

definition trim :: "string \<Rightarrow> string" where
  "trim s = rev (dropWhile is_ws (rev (dropWhile is_ws s)))"

definition is_digit :: "char \<Rightarrow> bool" where
  "is_digit c = (48 \<le> (of_char c :: nat) \<and> (of_char c :: nat) \<le> 57)"

definition digits_val :: "string \<Rightarrow> nat" where
  "digits_val ds = foldl (\<lambda>acc c. 10 * acc + (of_char c - 48)) 0 ds"

text \<open>\<open>s.split(sep)\<close> for a one-character separator: never empty, \<open>''''\<close> gives \<open>['''']\<close>.\<close>

fun split_on :: "char \<Rightarrow> string \<Rightarrow> string list" where
  "split_on sep [] = [[]]"
| "split_on sep (c # cs) =
     (if c = sep then [] # split_on sep cs
      else (case split_on sep cs of [] \<Rightarrow> [[c]] | l # ls \<Rightarrow> (c # l) # ls))"

text \<open>Decimal rendering of a natural number, as a template literal renders a status code.\<close>

fun nat_digits :: "nat \<Rightarrow> nat \<Rightarrow> string" where
  "nat_digits 0 n = []"
| "nat_digits (Suc k) n =
     (if n < 10 then [char_of (48 + n)]
      else nat_digits k (n div 10) @ [char_of (48 + n mod 10)])"

definition show_nat :: "nat \<Rightarrow> string" where
  "show_nat n = nat_digits (Suc n) n"

text \<open>
  The value of a numeric literal before rounding.  \<open>take_exponent\<close> reads an optional
  exponent part; \<open>parse_udec\<close> the longest prefix that is an unsigned decimal literal
  (\<open>Infinity\<close>, \<open>12\<close>, \<open>12.\<close>, \<open>12.5\<close>, \<open>.5\<close>, each with an optional exponent) and returns
  what is left; \<open>parse_sdec\<close> allows a sign in front.
\<close>

datatype lit = LInf bool | LVal rat

definition take_exponent :: "string \<Rightarrow> int \<times> string" where
  "take_exponent s =
     (case s of
        [] \<Rightarrow> (0, s)
      | c # r \<Rightarrow>
          if c = CHR ''e'' \<or> c = CHR ''E'' then
            (let neg = (case r of [] \<Rightarrow> False | d # _ \<Rightarrow> d = CHR ''-'');
                 r1 = (case r of [] \<Rightarrow> r | d # r' \<Rightarrow> if d = CHR ''-'' \<or> d = CHR ''+'' then r' else r);
                 ds = takeWhile is_digit r1
             in if ds = [] then (0, s)
                else (if neg then - int (digits_val ds) else int (digits_val ds),
                      dropWhile is_digit r1))
          else (0, s))"

definition parse_udec :: "string \<Rightarrow> (lit \<times> string) option" where
  "parse_udec s =
     (if take 8 s = ''Infinity'' then Some (LInf False, drop 8 s)
      else
        let ip = takeWhile is_digit s; r1 = dropWhile is_digit s
        in (case r1 of
              [] \<Rightarrow> if ip = [] then None else Some (LVal (of_nat (digits_val ip)), [])
            | c # r2 \<Rightarrow>
                if c = CHR ''.'' then
                  (let fp = takeWhile is_digit r2; r3 = dropWhile is_digit r2
                   in if ip = [] \<and> fp = [] then None
                      else (case take_exponent r3 of
                              (ex, r4) \<Rightarrow>
                                Some (LVal (of_nat (digits_val (ip @ fp))
                                            * pow10 (ex - int (length fp))), r4)))
                else if ip = [] then None
                else (case take_exponent r1 of
                        (ex, r4) \<Rightarrow> Some (LVal (of_nat (digits_val ip) * pow10 ex), r4))))"

fun lit_neg :: "lit \<Rightarrow> lit" where
  "lit_neg (LInf b) = LInf (\<not> b)"
| "lit_neg (LVal q) = LVal (- q)"

definition parse_sdec :: "string \<Rightarrow> (lit \<times> string) option" where
  "parse_sdec s =
     (case s of
        [] \<Rightarrow> None
      | c # r \<Rightarrow>
          if c = CHR ''+'' then parse_udec r
          else if c = CHR ''-'' then map_option (\<lambda>(l, rest). (lit_neg l, rest)) (parse_udec r)
          else parse_udec s)"

fun lit_num :: "lit \<Rightarrow> jsnum" where
  "lit_num (LInf neg) = (if neg then NInf else PInf)"
| "lit_num (LVal q) = round_double q"

text \<open>Binary, octal and hexadecimal integer literals (\<open>0b\<close>, \<open>0o\<close>, \<open>0x\<close>), without sign.\<close>

definition radix_digit :: "char \<Rightarrow> nat option" where
  "radix_digit c =
     (let n = (of_char c :: nat)
      in if 48 \<le> n \<and> n \<le> 57 then Some (n - 48)
         else if 97 \<le> n \<and> n \<le> 102 then Some (n - 87)
         else if 65 \<le> n \<and> n \<le> 70 then Some (n - 55)
         else None)"

definition radix_val :: "nat \<Rightarrow> string \<Rightarrow> nat option" where
  "radix_val b ds =
     (if ds \<noteq> [] \<and> (\<forall>c \<in> set ds. case radix_digit c of None \<Rightarrow> False | Some d \<Rightarrow> d < b)
      then Some (foldl (\<lambda>acc c. b * acc + the (radix_digit c)) 0 ds)
      else None)"

definition parse_nondec :: "string \<Rightarrow> nat option" where
  "parse_nondec s =
     (case s of
        z # x # ds \<Rightarrow>
          if z \<noteq> CHR ''0'' then None
          else if x = CHR ''x'' \<or> x = CHR ''X'' then radix_val 16 ds
          else if x = CHR ''o'' \<or> x = CHR ''O'' then radix_val 8 ds
          else if x = CHR ''b'' \<or> x = CHR ''B'' then radix_val 2 ds
          else None
      | _ \<Rightarrow> None)"

text \<open>\<open>Number(s)\<close> for a string: the whole trimmed string must be one literal; empty is 0.\<close>

definition string_to_number :: "string \<Rightarrow> jsnum" where
  "string_to_number s =
     (let t = trim s
      in if t = [] then Fin 0
         else (case parse_nondec t of
                 Some n \<Rightarrow> round_double (of_nat n)
               | None \<Rightarrow>
                   (case parse_sdec t of
                      Some (l, []) \<Rightarrow> lit_num l
                    | _ \<Rightarrow> NaN)))"

text \<open>\<open>parseFloat(s)\<close> for a string: the longest decimal literal after leading white space.\<close>

definition string_parseFloat :: "string \<Rightarrow> jsnum" where
  "string_parseFloat s =
     (case parse_sdec (dropWhile is_ws s) of
        Some (l, rest) \<Rightarrow> lit_num l
      | None \<Rightarrow> NaN)"

section \<open>Values, errors and the network\<close>

text \<open>
  What \<open>res.json()\<close> yields, and \<open>undefined\<close> for what a property read can yield besides.
  An object is the list of its properties in order, each name once.
\<close>

datatype json =
    JUndefined
  | JNull
  | JBool bool
  | JNum jsnum
  | JStr string
  | JArr "json list"
  | JObj "(string \<times> json) list"

text \<open>An error object: its \<open>name\<close> and its \<open>message\<close>.\<close>

datatype js_error = JsError (err_name: string) (message: string)

abbreviation Error :: "string \<Rightarrow> js_error" where
  "Error m \<equiv> JsError ''Error'' m"

abbreviation TypeError :: "string \<Rightarrow> js_error" where
  "TypeError m \<equiv> JsError ''TypeError'' m"

text \<open>\<open>String(e)\<close> for an error object.\<close>

definition error_to_string :: "js_error \<Rightarrow> string" where
  "error_to_string e =
     (if err_name e = [] then message e
      else if message e = [] then err_name e
      else err_name e @ '': '' @ message e)"

definition nullish :: "json \<Rightarrow> bool" where
  "nullish v = (v = JNull \<or> v = JUndefined)"

fun truthy :: "json \<Rightarrow> bool" where
  "truthy JUndefined = False"
| "truthy JNull = False"
| "truthy (JBool b) = b"
| "truthy (JNum n) = (n \<noteq> NaN \<and> n \<noteq> Fin 0)"
| "truthy (JStr s) = (s \<noteq> [])"
| "truthy (JArr xs) = True"
| "truthy (JObj kvs) = True"

text \<open>
  \<open>v.k\<close> for a value that is neither \<open>null\<close> nor \<open>undefined\<close>: an own property of an
  object, \<open>undefined\<close> otherwise (none of the names the code reads is inherited by a
  string, number, boolean, array or plain object).
\<close>

fun get :: "json \<Rightarrow> string \<Rightarrow> json" where
  "get (JObj kvs) k = (case map_of kvs k of Some v \<Rightarrow> v | None \<Rightarrow> JUndefined)"
| "get _ k = JUndefined"

text \<open>
  \<open>v.k\<close> in general: reading a property of \<open>null\<close> or \<open>undefined\<close> throws a
  \<open>TypeError\<close>.  Its message is the engine's; the wording here follows V8 and nothing
  below depends on it.
\<close>

definition read_prop :: "json \<Rightarrow> string \<Rightarrow> js_error + json" where
  "read_prop v k =
     (if v = JNull
      then Inl (TypeError (''Cannot read properties of null (reading '' @ k @ '')''))
      else if v = JUndefined
      then Inl (TypeError (''Cannot read properties of undefined (reading '' @ k @ '')''))
      else Inr (get v k))"

text \<open>
  \<open>Number(v)\<close>.  An array is converted through its string: an empty array gives the empty
  string, one element gives that element's string (empty for \<open>null\<close>), more elements give
  a string with a comma, which is no numeric literal.  The string of a number reads back
  as that number.
\<close>

fun to_number :: "json \<Rightarrow> jsnum" where
  "to_number JUndefined = NaN"
| "to_number JNull = Fin 0"
| "to_number (JBool b) = Fin (if b then 1 else 0)"
| "to_number (JNum n) = n"
| "to_number (JStr s) = string_to_number s"
| "to_number (JArr []) = Fin 0"
| "to_number (JArr [x]) =
     (case x of
        JUndefined \<Rightarrow> Fin 0
      | JNull \<Rightarrow> Fin 0
      | JBool b \<Rightarrow> NaN
      | JObj kvs \<Rightarrow> NaN
      | _ \<Rightarrow> to_number x)"
| "to_number (JArr (x # y # zs)) = NaN"
| "to_number (JObj kvs) = NaN"

text \<open>
  \<open>parseFloat(v)\<close>: the longest decimal literal at the start of the string of \<open>v\<close>.  For an
  array that is the start of its first element's string, since the next character, if
  any, is a comma.
\<close>

fun to_parseFloat :: "json \<Rightarrow> jsnum" where
  "to_parseFloat (JNum n) = n"
| "to_parseFloat (JStr s) = string_parseFloat s"
| "to_parseFloat (JArr (x # xs)) =
     (case x of
        JNum n \<Rightarrow> n
      | JStr s \<Rightarrow> string_parseFloat s
      | JArr ys \<Rightarrow> to_parseFloat x
      | _ \<Rightarrow> NaN)"
| "to_parseFloat _ = NaN"

text \<open>
  How \<open>JSON.stringify\<close> writes a number and a nullable number: \<open>NaN\<close> and the infinities
  are written \<open>null\<close>.  Response bodies below are the values a client parses from the
  body string.
\<close>

fun json_num :: "jsnum \<Rightarrow> json" where
  "json_num (Fin q) = JNum (Fin q)"
| "json_num _ = JNull"

fun json_opt_num :: "jsnum option \<Rightarrow> json" where
  "json_opt_num None = JNull"
| "json_opt_num (Some n) = json_num n"

text \<open>
  The world of one invocation: the environment variables and the network.  \<open>net w url k\<close>
  is what the \<open>k\<close>-th call (from 0) of \<open>fetch(url)\<close> settles to: a rejection, or a response
  with its status, what \<open>res.json()\<close> settles to and what \<open>res.text()\<close> resolves to.
  Within one invocation every URL is fetched by one function only, so no run is excluded.
  \<open>number_to_string w\<close> is \<open>String(n)\<close> of the runtime for a number, whose digit
  generation is not part of the code under study; it is only ever used for the message of
  an error made from a provider's \<open>message\<close> field that is a number.
\<close>

datatype response = Response (status: nat) (json_body: "js_error + json") (text_body: string)

datatype fetch_result = Rejected js_error | Resolved response

record world =
  env_FRED_KEY :: "string option"
  env_FMP_KEY :: "string option"
  env_TWELVE_KEY :: "string option"
  net :: "string \<Rightarrow> nat \<Rightarrow> fetch_result"
  number_to_string :: "jsnum \<Rightarrow> string"

text \<open>\<open>res.ok\<close>\<close>

definition ok :: "response \<Rightarrow> bool" where
  "ok res = (200 \<le> status res \<and> status res \<le> 299)"

text \<open>A value of \<open>process.env\<close> inside a template literal, and its truth value.\<close>

definition env_string :: "string option \<Rightarrow> string" where
  "env_string k = (case k of None \<Rightarrow> ''undefined'' | Some s \<Rightarrow> s)"

definition env_truthy :: "string option \<Rightarrow> bool" where
  "env_truthy k = (case k of None \<Rightarrow> False | Some s \<Rightarrow> s \<noteq> [])"

text \<open>
  What an invocation does, in order: \<open>Invoke\<close> when the handler calls a source function,
  \<open>Fetch\<close> for a request, \<open>Sleep\<close> for a pause in milliseconds.
\<close>

datatype event = Invoke string | Fetch string | Sleep int

definition invoked :: "event list \<Rightarrow> string list" where
  "invoked evs = concat (map (\<lambda>e. case e of Invoke n \<Rightarrow> [n] | _ \<Rightarrow> []) evs)"

definition requests :: "event list \<Rightarrow> string list" where
  "requests evs = concat (map (\<lambda>e. case e of Fetch u \<Rightarrow> [u] | _ \<Rightarrow> []) evs)"

section \<open>vixIndex.js: transport\<close>

text \<open>
  One pass through the \<open>try\<close> block of \<open>fetchJsonWithRetry\<close> and of \<open>fetchTextWithRetry\<close>,
  at loop index \<open>i\<close>.
\<close>

definition fetchJson_attempt :: "world \<Rightarrow> string \<Rightarrow> nat \<Rightarrow> js_error + json" where
  "fetchJson_attempt w url i =
     (case net w url i of
        Rejected e \<Rightarrow> Inl e
      | Resolved res \<Rightarrow>
          if \<not> ok res then Inl (Error (''HTTP '' @ show_nat (status res) @ '' '' @ url))
          else json_body res)"

definition fetchText_attempt :: "world \<Rightarrow> string \<Rightarrow> nat \<Rightarrow> js_error + string" where
  "fetchText_attempt w url i =
     (case net w url i of
        Rejected e \<Rightarrow> Inl e
      | Resolved res \<Rightarrow>
          if \<not> ok res then Inl (Error (''HTTP '' @ show_nat (status res) @ '' '' @ url))
          else Inr (text_body res))"

text \<open>
  The loop \<open>for (let i = 0; i < attempts; i++)\<close> that the two functions share word for
  word, from index \<open>i\<close> with \<open>lastErr\<close> as it stands.  The result comes with the requests
  and pauses made, in order.  \<open>attempts\<close> is a count (the callers pass 3 and 2) and
  \<open>delay\<close> a whole number of milliseconds; \<open>fname\<close> is the name in the message of the
  error thrown when the loop never ran.
\<close>

function retry_loop ::
  "(nat \<Rightarrow> js_error + 'a) \<Rightarrow> string \<Rightarrow> string \<Rightarrow> nat \<Rightarrow> int \<Rightarrow> nat \<Rightarrow> js_error option
     \<Rightarrow> (js_error + 'a) \<times> event list" where
  "retry_loop attempt fname url attempts delay i lastErr =
     (if i < attempts then
        (case attempt i of
           Inr v \<Rightarrow> (Inr v, [Fetch url])
         | Inl e \<Rightarrow>
             (case retry_loop attempt fname url attempts delay (Suc i) (Some e) of
                (r, evs) \<Rightarrow>
                  (r, Fetch url
                      # (if int i < int attempts - 1 then [Sleep (delay * (int i + 1))] else [])
                      @ evs)))
      else
        (Inl (case lastErr of Some e \<Rightarrow> e | None \<Rightarrow> Error (fname @ '': unknown error'')), []))"
  by pat_completeness auto
termination
  by (relation "measure (\<lambda>(attempt, fname, url, attempts, delay, i, lastErr). attempts - i)") auto

declare retry_loop.simps [simp del]

definition fetchJsonWithRetry ::
  "world \<Rightarrow> string \<Rightarrow> nat \<Rightarrow> int \<Rightarrow> (js_error + json) \<times> event list" where
  "fetchJsonWithRetry w url attempts delay =
     retry_loop (fetchJson_attempt w url) ''fetchJsonWithRetry'' url attempts delay 0 None"

definition fetchTextWithRetry ::
  "world \<Rightarrow> string \<Rightarrow> nat \<Rightarrow> int \<Rightarrow> (js_error + string) \<times> event list" where
  "fetchTextWithRetry w url attempts delay =
     retry_loop (fetchText_attempt w url) ''fetchTextWithRetry'' url attempts delay 0 None"

text \<open>
  \<open>String(v)\<close>, the message of \<open>new Error(v)\<close>.  Inside an array \<open>null\<close> and \<open>undefined\<close>
  are written as nothing.
\<close>

fun to_string :: "(jsnum \<Rightarrow> string) \<Rightarrow> json \<Rightarrow> string" where
  "to_string nts JUndefined = ''undefined''"
| "to_string nts JNull = ''null''"
| "to_string nts (JBool b) = (if b then ''true'' else ''false'')"
| "to_string nts (JNum n) = nts n"
| "to_string nts (JStr s) = s"
| "to_string nts (JArr []) = []"
| "to_string nts (JArr [x]) = (if nullish x then [] else to_string nts x)"
| "to_string nts (JArr (x # y # zs)) =
     (if nullish x then [] else to_string nts x) @ '','' @ to_string nts (JArr (y # zs))"
| "to_string nts (JObj kvs) = ''[object Object]''"

text \<open>\<open>a ?? b\<close>\<close>

definition coalesce :: "json \<Rightarrow> json \<Rightarrow> json" where
  "coalesce a b = (if nullish a then b else a)"

text \<open>\<open>xs.filter(p)\<close> for a callback that may throw: the first throw ends the call.\<close>

fun filterE :: "('a \<Rightarrow> js_error + bool) \<Rightarrow> 'a list \<Rightarrow> js_error + 'a list" where
  "filterE p [] = Inr []"
| "filterE p (x # xs) =
     (case p x of
        Inl e \<Rightarrow> Inl e
      | Inr b \<Rightarrow>
          (case filterE p xs of
             Inl e \<Rightarrow> Inl e
           | Inr ys \<Rightarrow> Inr (if b then x # ys else ys)))"

text \<open>
  \<open>v.filter(...)\<close> on something that may not be an array: only an array has a callable
  \<open>filter\<close>, and reading \<open>filter\<close> from \<open>null\<close> or \<open>undefined\<close> throws as well.
\<close>

definition as_array :: "json \<Rightarrow> js_error + json list" where
  "as_array v =
     (case v of
        JArr xs \<Rightarrow> Inr xs
      | JNull \<Rightarrow> Inl (TypeError ''Cannot read properties of null (reading filter)'')
      | JUndefined \<Rightarrow> Inl (TypeError ''Cannot read properties of undefined (reading filter)'')
      | _ \<Rightarrow> Inl (TypeError ''filter is not a function''))"

text \<open>
  The percentage written five times in the sources as
  \<open>Number((((latest - prev) / prev) * 100).toFixed(2))\<close>.
\<close>

definition pct_change :: "jsnum \<Rightarrow> jsnum \<Rightarrow> jsnum" where
  "pct_change latest prev =
     number_toFixed2 (num_mul (num_div (num_sub latest prev) prev) (Fin 100))"

section \<open>vixIndex.js: the four sources\<close>

record quote =
  price :: jsnum
  changePercent :: "jsnum option"
  source :: string

record obs =
  date :: json
  val :: jsnum

text \<open>\<open>fromFRED\<close> after the fetch: from \<open>const obs = ...\<close> to the \<open>return\<close>.\<close>

definition fromFRED_obs :: "json \<Rightarrow> js_error + obs list" where
  "fromFRED_obs json =
     (let observations = (if nullish json then JUndefined else get json ''observations'')
      in case as_array (if truthy observations then observations else JArr []) of
           Inl e \<Rightarrow> Inl e
         | Inr raw \<Rightarrow>
             (case filterE (\<lambda>ob. case read_prop ob ''value'' of
                                   Inl e \<Rightarrow> Inl e
                                 | Inr v \<Rightarrow> Inr (v \<noteq> JStr ''.'')) raw of
                Inl e \<Rightarrow> Inl e
              | Inr kept \<Rightarrow>
                  Inr (filter (\<lambda>ob. isFinite (val ob))
                         (map (\<lambda>ob. \<lparr>date = get ob ''date'', val = to_number (get ob ''value'')\<rparr>)
                            kept))))"

definition fromFRED_quote :: "obs list \<Rightarrow> js_error + quote" where
  "fromFRED_quote obs =
     (if length obs < 1 then Inl (Error ''FRED VIXCLS: no numeric observations'')
      else
        let latest = obs ! 0;
            prev = (if 1 < length obs then Some (obs ! 1) else None);
            change = (case prev of
                        Some p \<Rightarrow> if val p \<noteq> Fin 0 then Some (pct_change (val latest) (val p))
                                  else None
                      | None \<Rightarrow> None)
        in Inr \<lparr>price = number_toFixed2 (val latest), changePercent = change,
                source = ''FRED VIXCLS (daily close)''\<rparr>)"

definition fromFRED_url :: "string \<Rightarrow> string" where
  "fromFRED_url key =
     ''https://api.stlouisfed.org/fred/series/observations?series_id=VIXCLS&api_key='' @ key
     @ ''&file_type=json&sort_order=desc&limit=15''"

definition fromFRED :: "world \<Rightarrow> (js_error + quote) \<times> event list" where
  "fromFRED w =
     (if \<not> env_truthy (env_FRED_KEY w) then (Inl (Error ''FRED_KEY missing''), [])
      else
        (case fetchJsonWithRetry w (fromFRED_url (env_string (env_FRED_KEY w))) 3 300 of
           (Inl e, evs) \<Rightarrow> (Inl e, evs)
         | (Inr json, evs) \<Rightarrow>
             ((case fromFRED_obs json of Inl e \<Rightarrow> Inl e | Inr obs \<Rightarrow> fromFRED_quote obs),
              evs)))"

text \<open>\<open>const FMP_KEY = process.env.FMP_KEY || ''\<close>\<close>

definition FMP_KEY :: "world \<Rightarrow> string" where
  "FMP_KEY w = (if env_truthy (env_FMP_KEY w) then env_string (env_FMP_KEY w) else [])"

definition fromFMP_quote :: "json \<Rightarrow> js_error + quote" where
  "fromFMP_quote arr =
     (case arr of
        JArr (x # xs) \<Rightarrow>
          (let q = (if truthy x then x else JObj []);
               price = to_number (coalesce (coalesce (coalesce (get q ''price'')
                         (get q ''previousClose'')) (get q ''dayHigh'')) (get q ''dayLow''));
               changePercent = to_number (coalesce (coalesce (get q ''changesPercentage'')
                         (get q ''changePercent'')) (get q ''change''))
           in if \<not> isFinite price then Inl (Error ''FMP: no usable price'')
              else Inr \<lparr>price = number_toFixed2 price,
                        changePercent = (if isFinite changePercent
                                         then Some (number_toFixed2 changePercent) else None),
                        source = ''FMP ^VIX''\<rparr>)
      | _ \<Rightarrow> Inl (Error ''FMP: empty response''))"

definition fromFMP_url :: "string \<Rightarrow> string" where
  "fromFMP_url key = ''https://financialmodelingprep.com/api/v3/quote/%5EVIX?apikey='' @ key"

definition fromFMP :: "world \<Rightarrow> (js_error + quote) \<times> event list" where
  "fromFMP w =
     (if FMP_KEY w = [] then (Inl (Error ''FMP_KEY missing''), [])
      else
        (case fetchJsonWithRetry w (fromFMP_url (FMP_KEY w)) 2 400 of
           (Inl e, evs) \<Rightarrow> (Inl e, evs)
         | (Inr arr, evs) \<Rightarrow> (fromFMP_quote arr, evs)))"

text \<open>\<open>s.split('\n').filter(Boolean)\<close>: the non-empty lines.\<close>

definition nonempty_lines :: "string \<Rightarrow> string list" where
  "nonempty_lines s = filter (\<lambda>l. l \<noteq> []) (split_on (CHR 0x0A) s)"

text \<open>\<open>fromCBOE\<close> from \<open>lines\<close> on, and from the text on.\<close>

definition fromCBOE_latest :: "string list \<Rightarrow> js_error + quote" where
  "fromCBOE_latest lines =
     (if length lines < 2 then Inl (Error ''CBOE: no data rows'')
      else
        let last = split_on (CHR '','') (lines ! (length lines - 1))
        in if length last < 5 then Inl (Error ''CBOE: malformed row'')
           else
             let close = string_to_number (last ! 4)
             in if \<not> isFinite close then Inl (Error ''CBOE: bad close'')
                else
                  let change =
                    (if 3 \<le> length lines then
                       (let prev = split_on (CHR '','') (lines ! (length lines - 2))
                        in if 5 \<le> length prev then
                             (let pClose = string_to_number (prev ! 4)
                              in if isFinite pClose \<and> pClose \<noteq> Fin 0
                                 then Some (pct_change close pClose) else None)
                           else None)
                     else None)
                  in Inr \<lparr>price = number_toFixed2 close, changePercent = change,
                          source = ''CBOE CSV''\<rparr>)"

definition fromCBOE_quote :: "string \<Rightarrow> js_error + quote" where
  "fromCBOE_quote csv = fromCBOE_latest (nonempty_lines (trim csv))"

definition fromCBOE_url :: string where
  "fromCBOE_url = ''https://cdn.cboe.com/api/global/us_indices/daily_prices/VIX_History.csv''"

definition fromCBOE :: "world \<Rightarrow> (js_error + quote) \<times> event list" where
  "fromCBOE w =
     (case fetchTextWithRetry w fromCBOE_url 2 400 of
        (Inl e, evs) \<Rightarrow> (Inl e, evs)
      | (Inr csv, evs) \<Rightarrow> (fromCBOE_quote csv, evs))"

text \<open>\<open>fromStooq\<close> from \<open>lines\<close> on, and from the text on.\<close>

definition fromStooq_latest :: "string list \<Rightarrow> js_error + quote" where
  "fromStooq_latest lines =
     (if length lines < 2 then Inl (Error ''Stooq: no rows'')
      else
        let last = split_on (CHR '','') (lines ! (length lines - 1))
        in if length last < 5 then Inl (Error ''Stooq: malformed row'')
           else
             let close = string_to_number (last ! 4)
             in if \<not> isFinite close then Inl (Error ''Stooq: bad close'')
                else
                  let change =
                    (if 3 \<le> length lines then
                       (let prev = split_on (CHR '','') (lines ! (length lines - 2));
                            pClose = (if 4 < length prev then string_to_number (prev ! 4)
                                      else NaN)
                        in if isFinite pClose \<and> pClose \<noteq> Fin 0
                           then Some (pct_change close pClose) else None)
                     else None)
                  in Inr \<lparr>price = number_toFixed2 close, changePercent = change,
                          source = ''Stooq CSV''\<rparr>)"

definition fromStooq_quote :: "string \<Rightarrow> js_error + quote" where
  "fromStooq_quote csv =
     (let trimmed = trim csv
      in if trimmed = [] \<or> trimmed = ''NO DATA'' then Inl (Error ''Stooq: NO DATA'')
         else fromStooq_latest (nonempty_lines trimmed))"

definition fromStooq_url :: string where
  "fromStooq_url = ''https://stooq.com/q/d/l/?s=%5Evix&i=d''"

definition fromStooq :: "world \<Rightarrow> (js_error + quote) \<times> event list" where
  "fromStooq w =
     (case fetchTextWithRetry w fromStooq_url 2 400 of
        (Inl e, evs) \<Rightarrow> (Inl e, evs)
      | (Inr csv, evs) \<Rightarrow> (fromStooq_quote csv, evs))"

section \<open>vixIndex.js: the handler\<close>

text \<open>
  The module variable \<open>cached\<close>, and what the handler returns.  The body of a response is
  the value that its JSON text denotes.
\<close>

record cache =
  c_price :: "jsnum option"
  c_changePercent :: "jsnum option"
  c_source :: string
  c_timestamp :: int

definition cached_init :: cache where
  "cached_init = \<lparr>c_price = None, c_changePercent = None, c_source = [], c_timestamp = 0\<rparr>"

record http_response =
  statusCode :: nat
  headers :: "(string \<times> string) list"
  body :: json

definition vix_headers :: "(string \<times> string) list" where
  "vix_headers =
     [(''Content-Type'', ''application/json''), (''Access-Control-Allow-Origin'', ''*''),
      (''Cache-Control'', ''no-store, must-revalidate'')]"

text \<open>\<open>cached = { ...r, timestamp: Date.now() }\<close>\<close>

definition cache_of :: "quote \<Rightarrow> int \<Rightarrow> cache" where
  "cache_of r now =
     \<lparr>c_price = Some (price r), c_changePercent = changePercent r, c_source = source r,
      c_timestamp = now\<rparr>"

text \<open>The response of a \<open>try\<close> block whose source succeeded with \<open>r\<close>.\<close>

definition live_response :: "quote \<Rightarrow> string \<Rightarrow> http_response" where
  "live_response r stamp =
     \<lparr>statusCode = 200, headers = vix_headers,
      body = JObj [(''price'', json_num (price r)),
                   (''changePercent'', json_opt_num (changePercent r)),
                   (''source'', JStr (source r)),
                   (''timestamp'', JStr stamp)]\<rparr>"

text \<open>\<open>{ src, ok: false, err: e.message }\<close>\<close>

definition tried_failed :: "string \<Rightarrow> js_error \<Rightarrow> json" where
  "tried_failed src e = JObj [(''src'', JStr src), (''ok'', JBool False), (''err'', JStr (message e))]"

definition cached_response :: "cache \<Rightarrow> json list \<Rightarrow> string \<Rightarrow> http_response" where
  "cached_response cached tried stamp =
     \<lparr>statusCode = 200, headers = vix_headers,
      body = JObj [(''price'', json_opt_num (c_price cached)),
                   (''changePercent'', json_opt_num (c_changePercent cached)),
                   (''source'', JStr (c_source cached @ '' (cached)'')),
                   (''timestamp'', JStr stamp),
                   (''_debug'', JObj [(''tried'', JArr tried)])]\<rparr>"

definition failed_response :: "json list \<Rightarrow> string \<Rightarrow> http_response" where
  "failed_response tried stamp =
     \<lparr>statusCode = 500, headers = vix_headers,
      body = JObj [(''error'', JStr ''All sources failed and no fresh cache''),
                   (''_debug'', JObj [(''tried'', JArr tried)]),
                   (''timestamp'', JStr stamp)]\<rparr>"

text \<open>
  \<open>exports.handler\<close> of vixIndex.js, run with \<open>cached\<close> as the module variable stands,
  \<open>now\<close> what \<open>Date.now()\<close> returns and \<open>stamp\<close> what \<open>new Date().toISOString()\<close> returns.
  It gives the response, the new value of \<open>cached\<close> and what was done.  Nothing in the
  outer \<open>try\<close> throws outside the four inner ones, so the outer \<open>catch\<close> is never entered;
  the entry \<open>{ src, ok: true }\<close> pushed on a success is dropped with \<open>tried\<close> at the
  \<open>return\<close> that follows.
\<close>

definition vix_handler ::
  "world \<Rightarrow> cache \<Rightarrow> int \<Rightarrow> string \<Rightarrow> http_response \<times> cache \<times> event list" where
  "vix_handler w cached now stamp =
     (case fromFRED w of
        (Inr r, ev1) \<Rightarrow> (live_response r stamp, cache_of r now, Invoke ''fromFRED'' # ev1)
      | (Inl e1, ev1) \<Rightarrow>
     (case fromFMP w of
        (Inr r, ev2) \<Rightarrow>
          (live_response r stamp, cache_of r now,
           Invoke ''fromFRED'' # ev1 @ Invoke ''fromFMP'' # ev2)
      | (Inl e2, ev2) \<Rightarrow>
     (case fromCBOE w of
        (Inr r, ev3) \<Rightarrow>
          (live_response r stamp, cache_of r now,
           Invoke ''fromFRED'' # ev1 @ Invoke ''fromFMP'' # ev2 @ Invoke ''fromCBOE'' # ev3)
      | (Inl e3, ev3) \<Rightarrow>
     (case fromStooq w of
        (Inr r, ev4) \<Rightarrow>
          (live_response r stamp, cache_of r now,
           Invoke ''fromFRED'' # ev1 @ Invoke ''fromFMP'' # ev2 @ Invoke ''fromCBOE'' # ev3
           @ Invoke ''fromStooq'' # ev4)
      | (Inl e4, ev4) \<Rightarrow>
          (let tried = [tried_failed ''FRED'' e1, tried_failed ''FMP'' e2,
                        tried_failed ''CBOE'' e3, tried_failed ''Stooq'' e4];
               ageMs = now - c_timestamp cached;
               evs = Invoke ''fromFRED'' # ev1 @ Invoke ''fromFMP'' # ev2
                     @ Invoke ''fromCBOE'' # ev3 @ Invoke ''fromStooq'' # ev4
           in if c_price cached \<noteq> None \<and> ageMs < 2 * 60 * 60 * 1000
              then (cached_response cached tried stamp, cached, evs)
              else (failed_response tried stamp, cached, evs))))))"

section \<open>gold.js\<close>

record gold_quote =
  gprice :: jsnum
  pct :: "jsnum option"
  gsource :: string

record gold_obs =
  gdate :: json
  gvalue :: jsnum

text \<open>
  \<open>encodeURIComponent\<close> on 8-bit characters: letters, digits and \<open>-_.!~*'()\<close> stay, any
  other character is written as the bytes of its UTF-8 form, each as \<open>%XX\<close>.
\<close>

definition hex_byte :: "nat \<Rightarrow> string" where
  "hex_byte n = [CHR ''%'', ''0123456789ABCDEF'' ! (n div 16 mod 16), ''0123456789ABCDEF'' ! (n mod 16)]"

definition uri_unreserved :: "char \<Rightarrow> bool" where
  "uri_unreserved c =
     (let n = (of_char c :: nat)
      in (48 \<le> n \<and> n \<le> 57) \<or> (65 \<le> n \<and> n \<le> 90) \<or> (97 \<le> n \<and> n \<le> 122)
         \<or> n \<in> {45, 95, 46, 33, 126, 42, 39, 40, 41})"

definition encodeURIComponent :: "string \<Rightarrow> string" where
  "encodeURIComponent s =
     concat (map (\<lambda>c. let n = (of_char c :: nat)
                      in if uri_unreserved c then [c]
                         else if n < 128 then hex_byte n
                         else hex_byte (192 + n div 64) @ hex_byte (128 + n mod 64)) s)"

text \<open>The single \<open>fetch(url)\<close> of the functions that do not retry.\<close>

definition fetch_once :: "world \<Rightarrow> string \<Rightarrow> fetch_result" where
  "fetch_once w url = net w url 0"

text \<open>\<open>new Error(json.message || dflt)\<close>\<close>

definition message_or :: "world \<Rightarrow> json \<Rightarrow> string \<Rightarrow> js_error" where
  "message_or w m dflt = Error (if truthy m then to_string (number_to_string w) m else dflt)"

definition tdGold_url :: "string \<Rightarrow> string" where
  "tdGold_url key =
     ''https://api.twelvedata.com/quote?symbol='' @ encodeURIComponent ''XAU/USD''
     @ ''&apikey='' @ key"

definition tdGold_quote :: "world \<Rightarrow> json \<Rightarrow> js_error + gold_quote" where
  "tdGold_quote w json =
     (case read_prop json ''status'' of
        Inl e \<Rightarrow> Inl e
      | Inr st \<Rightarrow>
          if st = JStr ''error'' then Inl (message_or w (get json ''message'') ''TwelveData error'')
          else
            let price = to_number (get json ''close'');
                pc = to_number (get json ''percent_change'')
            in if \<not> isFinite price then Inl (Error ''TwelveData: bad price'')
               else Inr \<lparr>gprice = price, pct = (if isFinite pc then Some pc else None),
                         gsource = ''TwelveData XAU/USD''\<rparr>)"

definition tdGold :: "world \<Rightarrow> (js_error + gold_quote) \<times> event list" where
  "tdGold w =
     (if \<not> env_truthy (env_TWELVE_KEY w) then (Inl (Error ''TWELVE_KEY missing''), [])
      else
        let url = tdGold_url (env_string (env_TWELVE_KEY w))
        in (case fetch_once w url of
              Rejected e \<Rightarrow> Inl e
            | Resolved res \<Rightarrow>
                if \<not> ok res then Inl (Error (''TwelveData HTTP '' @ show_nat (status res)))
                else (case json_body res of
                        Inl e \<Rightarrow> Inl e
                      | Inr json \<Rightarrow> tdGold_quote w json),
            [Fetch url]))"

definition fmpGold_url :: "string \<Rightarrow> string" where
  "fmpGold_url key =
     ''https://financialmodelingprep.com/api/v3/quote/'' @ encodeURIComponent ''GC=F''
     @ ''?apikey='' @ key"

definition fmpGold_quote :: "json \<Rightarrow> js_error + gold_quote" where
  "fmpGold_quote json =
     (case json of
        JArr (x # xs) \<Rightarrow>
          if \<not> truthy x then Inl (Error ''FMP: bad payload'')
          else
            let price = to_number (get x ''price'');
                pc = to_number (get x ''changesPercentage'')
            in if \<not> isFinite price then Inl (Error ''FMP: bad price'')
               else Inr \<lparr>gprice = price, pct = (if isFinite pc then Some pc else None),
                         gsource = ''FMP GC=F''\<rparr>
      | _ \<Rightarrow> Inl (Error ''FMP: bad payload''))"

definition fmpGold :: "world \<Rightarrow> (js_error + gold_quote) \<times> event list" where
  "fmpGold w =
     (if \<not> env_truthy (env_FMP_KEY w) then (Inl (Error ''FMP_KEY missing''), [])
      else
        let url = fmpGold_url (env_string (env_FMP_KEY w))
        in (case fetch_once w url of
              Rejected e \<Rightarrow> Inl e
            | Resolved res \<Rightarrow>
                if \<not> ok res then Inl (Error (''FMP HTTP '' @ show_nat (status res)))
                else (case json_body res of
                        Inl e \<Rightarrow> Inl e
                      | Inr json \<Rightarrow> fmpGold_quote json),
            [Fetch url]))"

definition fredLatestPair_url :: "string \<Rightarrow> string \<Rightarrow> string" where
  "fredLatestPair_url seriesId key =
     ''https://api.stlouisfed.org/fred/series/observations?series_id='' @ seriesId
     @ ''&api_key='' @ key @ ''&file_type=json''"

text \<open>The \<open>filter\<close> and the \<open>map\<close> that make \<open>clean\<close>, in gold.js and in fetchAllData.js.\<close>

definition clean_keep :: "json \<Rightarrow> bool" where
  "clean_keep ob =
     (truthy ob \<and> get ob ''value'' \<noteq> JStr ''.'' \<and> \<not> nullish (get ob ''value'')
      \<and> to_number (get ob ''value'') \<noteq> NaN)"

definition clean_obs :: "json list \<Rightarrow> gold_obs list" where
  "clean_obs raw =
     map (\<lambda>ob. \<lparr>gdate = get ob ''date'', gvalue = to_number (get ob ''value'')\<rparr>)
       (filter clean_keep raw)"

text \<open>\<open>fredLatestPair\<close> of gold.js from \<open>clean\<close> on, and from the parsed body on.\<close>

definition fredLatestPair_latest :: "string \<Rightarrow> gold_obs list \<Rightarrow> js_error + gold_quote" where
  "fredLatestPair_latest seriesId clean =
     (if length clean = 0 then Inl (Error (''FRED '' @ seriesId @ '': no observations''))
      else
        let latest = clean ! (length clean - 1);
            prior = (if 2 \<le> length clean then Some (clean ! (length clean - 2)) else None);
            price = gvalue latest
        in Inr \<lparr>gprice = price,
                pct = (case prior of
                         Some p \<Rightarrow>
                           if isFinite (gvalue p) \<and> gvalue p \<noteq> Fin 0
                           then Some (pct_change price (gvalue p)) else None
                       | None \<Rightarrow> None),
                gsource = ''FRED '' @ seriesId\<rparr>)"

definition fredLatestPair_quote :: "string \<Rightarrow> json \<Rightarrow> js_error + gold_quote" where
  "fredLatestPair_quote seriesId json =
     (case read_prop json ''observations'' of
        Inl e \<Rightarrow> Inl e
      | Inr observations \<Rightarrow>
          fredLatestPair_latest seriesId
            (clean_obs (case observations of JArr xs \<Rightarrow> xs | _ \<Rightarrow> [])))"

definition fred_http_error :: "string \<Rightarrow> response \<Rightarrow> js_error" where
  "fred_http_error seriesId res =
     Error (''FRED HTTP '' @ show_nat (status res) @ '' ('' @ seriesId @ '')''
            @ (if text_body res \<noteq> [] then '' - '' @ text_body res else []))"

definition fredLatestPair :: "string \<Rightarrow> world \<Rightarrow> (js_error + gold_quote) \<times> event list" where
  "fredLatestPair seriesId w =
     (if \<not> env_truthy (env_FRED_KEY w) then (Inl (Error ''FRED_KEY missing''), [])
      else
        let url = fredLatestPair_url seriesId (env_string (env_FRED_KEY w))
        in (case fetch_once w url of
              Rejected e \<Rightarrow> Inl e
            | Resolved res \<Rightarrow>
                if \<not> ok res then Inl (fred_http_error seriesId res)
                else (case json_body res of
                        Inl e \<Rightarrow> Inl e
                      | Inr json \<Rightarrow> fredLatestPair_quote seriesId json),
            [Fetch url]))"

definition gold_headers :: "(string \<times> string) list" where
  "gold_headers =
     [(''Content-Type'', ''application/json''), (''Access-Control-Allow-Origin'', ''*'')]"

text \<open>
  The array \<open>attempts\<close> and the loop over it; each source comes with the name its
  invocation is recorded under.  \<open>tried\<close> holds \<open>e.message || String(e)\<close> of the failures.
\<close>

definition gold_attempts :: "(string \<times> (world \<Rightarrow> (js_error + gold_quote) \<times> event list)) list" where
  "gold_attempts =
     [(''tdGold'', tdGold), (''fmpGold'', fmpGold),
      (''fredLatestPair GOLDPMGBD228NLBM'', fredLatestPair ''GOLDPMGBD228NLBM''),
      (''fredLatestPair GOLDAMGBD228NLBM'', fredLatestPair ''GOLDAMGBD228NLBM'')]"

definition gold_success :: "gold_quote \<Rightarrow> string \<Rightarrow> http_response" where
  "gold_success r stamp =
     \<lparr>statusCode = 200, headers = gold_headers,
      body = JObj [(''price'', json_num (gprice r)), (''pct'', json_opt_num (pct r)),
                   (''source'', JStr (gsource r)), (''timestamp'', JStr stamp)]\<rparr>"

definition gold_failure :: "string list \<Rightarrow> string \<Rightarrow> http_response" where
  "gold_failure tried stamp =
     \<lparr>statusCode = 200, headers = gold_headers,
      body = JObj [(''error'', JStr ''All gold sources failed''),
                   (''_debug'', JObj [(''tried'', JArr (map JStr tried))]),
                   (''timestamp'', JStr stamp)]\<rparr>"

text \<open>\<open>e.message || String(e)\<close>\<close>

definition tried_message :: "js_error \<Rightarrow> string" where
  "tried_message e = (if message e \<noteq> [] then message e else error_to_string e)"

fun gold_loop ::
  "(string \<times> (world \<Rightarrow> (js_error + gold_quote) \<times> event list)) list \<Rightarrow> world \<Rightarrow> string
     \<Rightarrow> string list \<Rightarrow> http_response \<times> event list" where
  "gold_loop [] w stamp tried = (gold_failure tried stamp, [])"
| "gold_loop ((name, fn) # rest) w stamp tried =
     (case fn w of
        (Inr r, ev) \<Rightarrow> (gold_success r stamp, Invoke name # ev)
      | (Inl e, ev) \<Rightarrow>
          (case gold_loop rest w stamp (tried @ [tried_message e]) of
             (resp, evs) \<Rightarrow> (resp, Invoke name # ev @ evs)))"

definition gold_handler :: "world \<Rightarrow> string \<Rightarrow> http_response \<times> event list" where
  "gold_handler w stamp = gold_loop gold_attempts w stamp []"

section \<open>dxy.js\<close>

definition dxy_url :: "string \<Rightarrow> string" where
  "dxy_url key =
     ''https://api.stlouisfed.org/fred/series/observations?'' @ ''series_id=DTWEXBGS&api_key=''
     @ key @ ''&file_type=json&sort_order=desc&limit=25''"

text \<open>
  The \<open>try\<close> block after the fetch: \<open>obs\<close>, then from \<open>obs\<close> the object given to
  \<open>JSON.stringify\<close>, or a throw.
\<close>

definition dxy_obs :: "json \<Rightarrow> js_error + json list" where
  "dxy_obs json =
     (case read_prop json ''observations'' of
        Inl e \<Rightarrow> Inl e
      | Inr observations \<Rightarrow>
          (case as_array (if truthy observations then observations else JArr []) of
             Inl e \<Rightarrow> Inl e
           | Inr raw \<Rightarrow>
               filterE (\<lambda>ob. case read_prop ob ''value'' of
                                Inl e \<Rightarrow> Inl e
                              | Inr v \<Rightarrow> Inr (v \<noteq> JStr ''.'')) raw))"

definition dxy_latest :: "json list \<Rightarrow> js_error + quote" where
  "dxy_latest obs =
     (if length obs < 2 then Inl (Error ''Not enough DXY observations'')
      else
        let latest = to_parseFloat (get (obs ! 0) ''value'');
            prior = to_parseFloat (get (obs ! 1) ''value'')
        in if \<not> isFinite latest \<or> \<not> isFinite prior then Inl (Error ''DXY NaN'')
           else
             let changePercent = num_mul (num_div (num_sub latest prior) prior) (Fin 100)
             in Inr \<lparr>price = number_toFixed2 latest,
                     changePercent = Some (number_toFixed2 changePercent),
                     source = ''FRED DTWEXBGS''\<rparr>)"

definition dxy_quote :: "json \<Rightarrow> js_error + quote" where
  "dxy_quote json = (case dxy_obs json of Inl e \<Rightarrow> Inl e | Inr obs \<Rightarrow> dxy_latest obs)"

definition dxy_try :: "world \<Rightarrow> (js_error + quote) \<times> event list" where
  "dxy_try w =
     (if \<not> env_truthy (env_FRED_KEY w) then (Inl (Error ''FRED_KEY missing''), [])
      else
        let url = dxy_url (env_string (env_FRED_KEY w))
        in (case fetch_once w url of
              Rejected e \<Rightarrow> Inl e
            | Resolved res \<Rightarrow>
                if \<not> ok res then Inl (Error (''FRED HTTP '' @ show_nat (status res)))
                else (case json_body res of
                        Inl e \<Rightarrow> Inl e
                      | Inr json \<Rightarrow> dxy_quote json),
            [Fetch url]))"

definition dxy_success :: "quote \<Rightarrow> string \<Rightarrow> http_response" where
  "dxy_success r stamp =
     \<lparr>statusCode = 200, headers = gold_headers,
      body = JObj [(''price'', json_num (price r)),
                   (''changePercent'', json_opt_num (changePercent r)),
                   (''source'', JStr (source r)), (''timestamp'', JStr stamp)]\<rparr>"

definition dxy_failure :: "js_error \<Rightarrow> string \<Rightarrow> http_response" where
  "dxy_failure err stamp =
     \<lparr>statusCode = 500, headers = gold_headers,
      body = JObj [(''error'', JStr (message err)), (''timestamp'', JStr stamp)]\<rparr>"

definition dxy_handler :: "world \<Rightarrow> string \<Rightarrow> http_response \<times> event list" where
  "dxy_handler w stamp =
     (case dxy_try w of
        (Inr r, evs) \<Rightarrow> (dxy_success r stamp, evs)
      | (Inl err, evs) \<Rightarrow> (dxy_failure err stamp, evs))"

section \<open>fetchAllData.js: the helpers\<close>

record pair =
  pprice :: jsnum
  ppct :: "jsnum option"

definition fetchTwelve_url :: "string \<Rightarrow> string \<Rightarrow> string" where
  "fetchTwelve_url symbol key =
     ''https://api.twelvedata.com/quote?symbol='' @ encodeURIComponent symbol
     @ ''&apikey='' @ key"

text \<open>
  \<open>fetchTwelve\<close> and \<open>fetchFMP\<close> return \<open>pct\<close> as a number always; \<open>Some\<close> holds it.
\<close>

definition fetchTwelve_pair :: "world \<Rightarrow> json \<Rightarrow> js_error + pair" where
  "fetchTwelve_pair w json =
     (case read_prop json ''status'' of
        Inl e \<Rightarrow> Inl e
      | Inr st \<Rightarrow>
          if st = JStr ''error'' then Inl (message_or w (get json ''message'') ''TwelveData error'')
          else Inr \<lparr>pprice = to_number (get json ''close''),
                    ppct = Some (to_number (get json ''percent_change''))\<rparr>)"

definition fetchTwelve :: "string \<Rightarrow> world \<Rightarrow> (js_error + pair) \<times> event list" where
  "fetchTwelve symbol w =
     (let url = fetchTwelve_url symbol (env_string (env_TWELVE_KEY w))
      in (case fetch_once w url of
            Rejected e \<Rightarrow> Inl e
          | Resolved res \<Rightarrow>
              if \<not> ok res then Inl (Error (''HTTP '' @ show_nat (status res)))
              else (case json_body res of
                      Inl e \<Rightarrow> Inl e
                    | Inr json \<Rightarrow> fetchTwelve_pair w json),
          [Fetch url]))"

definition fetchFMP_url :: "string \<Rightarrow> string \<Rightarrow> string" where
  "fetchFMP_url symbol key =
     ''https://financialmodelingprep.com/api/v3/quote/'' @ encodeURIComponent symbol
     @ ''?apikey='' @ key"

definition fetchFMP_pair :: "json \<Rightarrow> js_error + pair" where
  "fetchFMP_pair json =
     (case json of
        JArr (x # xs) \<Rightarrow>
          if \<not> truthy x then Inl (Error ''Bad FMP data'')
          else Inr \<lparr>pprice = to_number (get x ''price''),
                    ppct = Some (to_number (get x ''changesPercentage''))\<rparr>
      | _ \<Rightarrow> Inl (Error ''Bad FMP data''))"

definition fetchFMP :: "string \<Rightarrow> world \<Rightarrow> (js_error + pair) \<times> event list" where
  "fetchFMP symbol w =
     (if \<not> env_truthy (env_FMP_KEY w) then (Inl (Error ''FMP_KEY missing''), [])
      else
        let url = fetchFMP_url symbol (env_string (env_FMP_KEY w))
        in (case fetch_once w url of
              Rejected e \<Rightarrow> Inl e
            | Resolved res \<Rightarrow>
                if \<not> ok res then Inl (Error (''HTTP '' @ show_nat (status res)))
                else (case json_body res of
                        Inl e \<Rightarrow> Inl e
                      | Inr json \<Rightarrow> fetchFMP_pair json),
            [Fetch url]))"

text \<open>
  \<open>fredLatestPair\<close> of fetchAllData.js, after the fetch.  Its guard is \<open>prior && prior.value\<close>:
  the previous value must be neither 0 nor \<open>NaN\<close>.
\<close>

definition fredLatestPair_all_latest :: "string \<Rightarrow> gold_obs list \<Rightarrow> js_error + pair" where
  "fredLatestPair_all_latest series_id clean =
     (let n = length clean
      in if n = 0 then Inl (Error (''No observations ('' @ series_id @ '')''))
         else
           let latest = clean ! (n - 1);
               prior = (if 2 \<le> n then Some (clean ! (n - 2)) else None);
               price = gvalue latest
           in Inr \<lparr>pprice = price,
                   ppct = (case prior of
                             Some p \<Rightarrow>
                               if truthy (JNum (gvalue p))
                               then Some (pct_change price (gvalue p)) else None
                           | None \<Rightarrow> None)\<rparr>)"

definition fredLatestPair_all_pair :: "string \<Rightarrow> json \<Rightarrow> js_error + pair" where
  "fredLatestPair_all_pair series_id json =
     (case read_prop json ''observations'' of
        Inl e \<Rightarrow> Inl e
      | Inr observations \<Rightarrow>
          fredLatestPair_all_latest series_id
            (clean_obs (case observations of JArr xs \<Rightarrow> xs | _ \<Rightarrow> [])))"

definition fredLatestPair_all :: "string \<Rightarrow> world \<Rightarrow> (js_error + pair) \<times> event list" where
  "fredLatestPair_all series_id w =
     (if \<not> env_truthy (env_FRED_KEY w) then (Inl (Error ''FRED_KEY missing''), [])
      else
        let url = fredLatestPair_url series_id (env_string (env_FRED_KEY w))
        in (case fetch_once w url of
              Rejected e \<Rightarrow> Inl e
            | Resolved res \<Rightarrow>
                if \<not> ok res then Inl (fred_http_error series_id res)
                else (case json_body res of
                        Inl e \<Rightarrow> Inl e
                      | Inr json \<Rightarrow> fredLatestPair_all_pair series_id json),
            [Fetch url]))"

section \<open>Notions the properties are stated with\<close>

text \<open>
  What a retrying fetch is expected to do for the failed attempts \<open>i, ..., k - 1\<close> out of
  \<open>n\<close> allowed: a request each, and after the attempt numbered \<open>j + 1\<close> (counting from 1)
  a pause of \<open>d * (j + 1)\<close> milliseconds unless that attempt was the last allowed.
\<close>

definition retry_trace :: "string \<Rightarrow> nat \<Rightarrow> int \<Rightarrow> nat \<Rightarrow> nat \<Rightarrow> event list" where
  "retry_trace url n d i k =
     concat (map (\<lambda>j. Fetch url # (if Suc j < n then [Sleep (d * int (Suc j))] else []))
               [i..<k])"

text \<open>
  The chain of vixIndex.js in the order in which the handler tries it, each source under
  the name its invocation is recorded with.
\<close>

definition vix_sources :: "(string \<times> (world \<Rightarrow> (js_error + quote) \<times> event list)) list" where
  "vix_sources =
     [(''fromFRED'', fromFRED), (''fromFMP'', fromFMP), (''fromCBOE'', fromCBOE),
      (''fromStooq'', fromStooq)]"

text \<open>A world with every key set in which every request is answered with status 503.\<close>

definition world_unavailable :: world where
  "world_unavailable =
     \<lparr>env_FRED_KEY = Some ''fk'', env_FMP_KEY = Some ''mk'', env_TWELVE_KEY = Some ''tk'',
      net = (\<lambda>url k. Resolved (Response 503 (Inl (JsError ''SyntaxError'' ''Unexpected token'')) ''busy'')),
      number_to_string = (\<lambda>n. [])\<rparr>"

text \<open>A world in which a request for \<open>''u''\<close> fails twice and then returns the number 7.\<close>

definition world_third_time :: world where
  "world_third_time =
     \<lparr>env_FRED_KEY = None, env_FMP_KEY = None, env_TWELVE_KEY = None,
      net = (\<lambda>url k. if k < 2 then Rejected (TypeError ''fetch failed'')
                       else Resolved (Response 200 (Inr (JNum (Fin 7))) ''7'')),
      number_to_string = (\<lambda>n. [])\<rparr>"




text \<open>
  One process: the handler of vixIndex.js invoked again and again, each time in its own
  world and at its own time, with the module variable \<open>cached\<close> carried from one
  invocation to the next.  The run lists each response with \<open>cached\<close> as it stands
  after it.
\<close>

fun vix_run :: "cache \<Rightarrow> (world \<times> int \<times> string) list \<Rightarrow> (http_response \<times> cache) list" where
  "vix_run c [] = []"
| "vix_run c ((w, now, stamp) # rest) =
     (case vix_handler w c now stamp of
        (resp, c', evs) \<Rightarrow> (resp, c') # vix_run c' rest)"

text \<open>\<open>cached\<close> after a success of the CBOE source at time 0, read at time 1800000.\<close>

definition cache_half_hour_old :: cache where
  "cache_half_hour_old =
     cache_of \<lparr>price = Fin 20, changePercent = None, source = ''CBOE CSV''\<rparr> 0"


text \<open>The value of the observation on a CSV row: \<open>Number(row.split(',')[4])\<close>.\<close>

definition close_of_row :: "string \<Rightarrow> jsnum" where
  "close_of_row row =
     (let cells = split_on (CHR '','') row
      in if 4 < length cells then string_to_number (cells ! 4) else NaN)"


text \<open>A history of three days in which the close of the middle day is not a number.\<close>

definition csv_gap :: string where
  "csv_gap =
     ''DATE,OPEN,HIGH,LOW,CLOSE'' @ [CHR 0x0A]
     @ ''01/02/2024,9,11,8,10'' @ [CHR 0x0A]
     @ ''01/03/2024,10,12,9,n/a'' @ [CHR 0x0A]
     @ ''01/04/2024,11,13,10,12'' @ [CHR 0x0A]"

text \<open>
  A world in which TwelveData answers every request with a quote whose \<open>close\<close> is not a
  number.
\<close>

definition world_bad_close :: world where
  "world_bad_close =
     \<lparr>env_FRED_KEY = None, env_FMP_KEY = None, env_TWELVE_KEY = Some ''tk'',
      net = (\<lambda>url k. Resolved (Response 200
               (Inr (JObj [(''symbol'', JStr ''SPY''), (''close'', JStr ''N/A''),
                           (''percent_change'', JStr ''0.5'')])) [])),
      number_to_string = (\<lambda>n. [])\<rparr>"

text \<open>
  The lines of a history whose previous close is 0, and of one that goes from 20 to 25;
  the filtered observations of dxy.js with a previous value of 0, and going from 20 to 25
  (newest first).
\<close>

definition lines_zero_prev :: "string list" where
  "lines_zero_prev = [''DATE,OPEN,HIGH,LOW,CLOSE'', ''01/03/2024,1,1,0,0'', ''01/04/2024,11,13,10,12'']"

definition lines_rising :: "string list" where
  "lines_rising =
     [''DATE,OPEN,HIGH,LOW,CLOSE'', ''01/03/2024,19,21,18,20'', ''01/04/2024,20,26,20,25'']"

definition obs_zero_prior :: "json list" where
  "obs_zero_prior =
     [JObj [(''date'', JStr ''2024-01-04''), (''value'', JStr ''100'')],
      JObj [(''date'', JStr ''2024-01-03''), (''value'', JStr ''0'')]]"

definition obs_rising :: "json list" where
  "obs_rising =
     [JObj [(''date'', JStr ''2024-01-04''), (''value'', JStr ''25'')],
      JObj [(''date'', JStr ''2024-01-03''), (''value'', JStr ''20'')]]"

text \<open>
  The lines of \<open>csv_gap\<close>, lines whose last close is not a number, and a FRED series
  (newest first) whose newest value is the sentinel.
\<close>

definition lines_gap :: "string list" where
  "lines_gap =
     [''DATE,OPEN,HIGH,LOW,CLOSE'', ''01/02/2024,9,11,8,10'', ''01/03/2024,10,12,9,n/a'',
      ''01/04/2024,11,13,10,12'']"



section \<open>Events\<close>

lemma requests_simps [simp]:
  "requests [] = []"
  "requests (Fetch u # evs) = u # requests evs"
  "requests (Sleep t # evs) = requests evs"
  "requests (Invoke a # evs) = requests evs"
  "requests (xs @ ys) = requests xs @ requests ys"
  by (simp_all add: requests_def)

lemma invoked_simps [simp]:
  "invoked [] = []"
  "invoked (Fetch u # evs) = invoked evs"
  "invoked (Sleep t # evs) = invoked evs"
  "invoked (Invoke a # evs) = a # invoked evs"
  "invoked (xs @ ys) = invoked xs @ invoked ys"
  by (simp_all add: invoked_def)

section \<open>The retry loop\<close>

lemma retry_trace_step:
  "i < k \<Longrightarrow>
   retry_trace url n d i k =
     Fetch url # (if int i < int n - 1 then [Sleep (d * (int i + 1))] else [])
     @ retry_trace url n d (Suc i) k"
  by (simp add: retry_trace_def upt_conv_Cons algebra_simps)

lemma retry_trace_empty [simp]: "retry_trace url n d i i = []"
  by (simp add: retry_trace_def)

lemma retry_loop_success:
  "i \<le> k \<Longrightarrow> k < n \<Longrightarrow> (\<forall>j. i \<le> j \<and> j < k \<longrightarrow> isl (attempt j)) \<Longrightarrow> attempt k = Inr v \<Longrightarrow>
   retry_loop attempt f url n d i le = (Inr v, retry_trace url n d i k @ [Fetch url])"
proof (induction "k - i" arbitrary: i le)
  case 0
  then have "i = k" by simp
  with 0 show ?case by (simp add: retry_loop.simps [of attempt f url n d k])
next
  case (Suc m)
  then have ik: "i < k" by simp
  with Suc.prems obtain e where e: "attempt i = Inl e" by (metis isl_def le_refl)
  have "retry_loop attempt f url n d (Suc i) (Some e)
          = (Inr v, retry_trace url n d (Suc i) k @ [Fetch url])"
    using Suc.hyps(1) [of "Suc i" "Some e"] Suc.hyps(2) Suc.prems ik by auto
  then show ?case
    using ik Suc.prems(2) e
    by (simp add: retry_loop.simps [of attempt f url n d i] retry_trace_step)
qed

lemma retry_loop_fail:
  "i < n \<Longrightarrow> (\<forall>j. i \<le> j \<and> j < n \<longrightarrow> isl (attempt j)) \<Longrightarrow>
   retry_loop attempt f url n d i le = (attempt (n - 1), retry_trace url n d i n)"
proof (induction "n - i" arbitrary: i le)
  case 0
  then show ?case by simp
next
  case (Suc m)
  from Suc.prems obtain e where e: "attempt i = Inl e" by (metis isl_def le_refl)
  show ?case
  proof (cases "Suc i < n")
    case True
    have "retry_loop attempt f url n d (Suc i) (Some e)
            = (attempt (n - 1), retry_trace url n d (Suc i) n)"
      using Suc.hyps(1) [of "Suc i" "Some e"] Suc.hyps(2) Suc.prems True by auto
    then show ?thesis
      using Suc.prems(1) e
      by (simp add: retry_loop.simps [of attempt f url n d i] retry_trace_step)
  next
    case False
    with Suc.prems(1) have n: "n = Suc i" by simp
    show ?thesis
      using e n
      by (simp add: retry_loop.simps [of attempt f url "Suc i" d i]
            retry_loop.simps [of attempt f url "Suc i" d "Suc i"] retry_trace_step)
  qed
qed

lemma retry_loop_requests:
  "length (requests (snd (retry_loop attempt f url n d i le))) \<le> n - i"
proof (induction "n - i" arbitrary: i le)
  case 0
  then show ?case by (simp add: retry_loop.simps [of attempt f url n d i])
next
  case (Suc m)
  then have lt: "i < n" by simp
  show ?case
  proof (cases "attempt i")
    case (Inr v)
    with lt show ?thesis by (simp add: retry_loop.simps [of attempt f url n d i])
  next
    case (Inl e)
    have "length (requests (snd (retry_loop attempt f url n d (Suc i) (Some e)))) \<le> n - Suc i"
      using Suc.hyps(1) [of "Suc i" "Some e"] Suc.hyps(2) by simp
    with lt Inl show ?thesis
      by (auto simp add: retry_loop.simps [of attempt f url n d i] split: prod.splits)
  qed
qed

lemma retry_loop_invoked:
  "invoked (snd (retry_loop attempt f url n d i le)) = []"
proof (induction "n - i" arbitrary: i le)
  case 0
  then show ?case by (simp add: retry_loop.simps [of attempt f url n d i])
next
  case (Suc m)
  then have lt: "i < n" by simp
  show ?case
  proof (cases "attempt i")
    case (Inr v)
    with lt show ?thesis by (simp add: retry_loop.simps [of attempt f url n d i])
  next
    case (Inl e)
    have "invoked (snd (retry_loop attempt f url n d (Suc i) (Some e))) = []"
      using Suc.hyps(1) [of "Suc i" "Some e"] Suc.hyps(2) by simp
    with lt Inl show ?thesis
      by (auto simp add: retry_loop.simps [of attempt f url n d i] split: prod.splits)
  qed
qed

text \<open>
  C8.  \<open>fetchJsonWithRetry\<close> and \<open>fetchTextWithRetry\<close> make at most \<open>n\<close> requests.  When the
  attempt numbered \<open>k + 1\<close> is the first to succeed, its value is returned after exactly the
  requests and pauses of \<open>retry_trace\<close>: the pause after the failed attempt numbered \<open>j\<close>
  is \<open>d * j\<close>.  When all \<open>n \<ge> 1\<close> attempts fail, the error of the last attempt is thrown
  after \<open>n\<close> requests with those pauses between them and none after the last.  A response
  whose status is outside 200..299 makes the attempt fail.
\<close>

theorem retry_bounded_linear_backoff:
  "length (requests (snd (fetchJsonWithRetry w url n d))) \<le> n
   \<and> length (requests (snd (fetchTextWithRetry w url n d))) \<le> n
   \<and> (\<forall>k v. k < n \<and> (\<forall>j<k. isl (fetchJson_attempt w url j)) \<and> fetchJson_attempt w url k = Inr v
          \<longrightarrow> fetchJsonWithRetry w url n d = (Inr v, retry_trace url n d 0 k @ [Fetch url]))
   \<and> (\<forall>k v. k < n \<and> (\<forall>j<k. isl (fetchText_attempt w url j)) \<and> fetchText_attempt w url k = Inr v
          \<longrightarrow> fetchTextWithRetry w url n d = (Inr v, retry_trace url n d 0 k @ [Fetch url]))
   \<and> (0 < n \<and> (\<forall>j<n. isl (fetchJson_attempt w url j))
          \<longrightarrow> fetchJsonWithRetry w url n d = (fetchJson_attempt w url (n - 1), retry_trace url n d 0 n))
   \<and> (0 < n \<and> (\<forall>j<n. isl (fetchText_attempt w url j))
          \<longrightarrow> fetchTextWithRetry w url n d = (fetchText_attempt w url (n - 1), retry_trace url n d 0 n))
   \<and> (\<forall>j res. net w url j = Resolved res \<and> \<not> ok res
          \<longrightarrow> isl (fetchJson_attempt w url j) \<and> isl (fetchText_attempt w url j))"
proof (intro conjI allI impI)
  show "length (requests (snd (fetchJsonWithRetry w url n d))) \<le> n"
    using retry_loop_requests [of "fetchJson_attempt w url" _ url n d 0 None]
    by (simp add: fetchJsonWithRetry_def)
  show "length (requests (snd (fetchTextWithRetry w url n d))) \<le> n"
    using retry_loop_requests [of "fetchText_attempt w url" _ url n d 0 None]
    by (simp add: fetchTextWithRetry_def)
next
  fix k v
  assume "k < n \<and> (\<forall>j<k. isl (fetchJson_attempt w url j)) \<and> fetchJson_attempt w url k = Inr v"
  then show "fetchJsonWithRetry w url n d = (Inr v, retry_trace url n d 0 k @ [Fetch url])"
    unfolding fetchJsonWithRetry_def by (intro retry_loop_success) auto
next
  fix k v
  assume "k < n \<and> (\<forall>j<k. isl (fetchText_attempt w url j)) \<and> fetchText_attempt w url k = Inr v"
  then show "fetchTextWithRetry w url n d = (Inr v, retry_trace url n d 0 k @ [Fetch url])"
    unfolding fetchTextWithRetry_def by (intro retry_loop_success) auto
next
  assume "0 < n \<and> (\<forall>j<n. isl (fetchJson_attempt w url j))"
  then show "fetchJsonWithRetry w url n d
               = (fetchJson_attempt w url (n - 1), retry_trace url n d 0 n)"
    unfolding fetchJsonWithRetry_def by (intro retry_loop_fail) auto
next
  assume "0 < n \<and> (\<forall>j<n. isl (fetchText_attempt w url j))"
  then show "fetchTextWithRetry w url n d
               = (fetchText_attempt w url (n - 1), retry_trace url n d 0 n)"
    unfolding fetchTextWithRetry_def by (intro retry_loop_fail) auto
next
  fix j res
  assume "net w url j = Resolved res \<and> \<not> ok res"
  then show "isl (fetchJson_attempt w url j)"
    by (simp add: fetchJson_attempt_def)
next
  fix j res
  assume "net w url j = Resolved res \<and> \<not> ok res"
  then show "isl (fetchText_attempt w url j)"
    by (simp add: fetchText_attempt_def)
qed

lemma show_nat_503: "show_nat 503 = ''503''"
  by code_simp

lemma retry_trace_3: "retry_trace url 3 d 0 3 = [Fetch url, Sleep d, Fetch url, Sleep (d * 2), Fetch url]"
  by (simp add: retry_trace_def upt_rec [of 0] upt_rec [of 1] upt_rec [of 2]
        upt_rec [of "Suc 0"] upt_rec [of "Suc (Suc 0)"])

lemma retry_trace_2: "retry_trace url 3 d 0 2 = [Fetch url, Sleep d, Fetch url, Sleep (d * 2)]"
  by (simp add: retry_trace_def upt_rec [of 0] upt_rec [of 1] upt_rec [of 2]
        upt_rec [of "Suc 0"] upt_rec [of "Suc (Suc 0)"])

theorem retry_bounded_linear_backoff_witness:
  "fetchJsonWithRetry world_unavailable ''u'' 3 300
     = (Inl (Error ''HTTP 503 u''), [Fetch ''u'', Sleep 300, Fetch ''u'', Sleep 600, Fetch ''u''])
   \<and> fetchTextWithRetry world_unavailable ''u'' 3 300
     = (Inl (Error ''HTTP 503 u''), [Fetch ''u'', Sleep 300, Fetch ''u'', Sleep 600, Fetch ''u''])
   \<and> fetchJsonWithRetry world_third_time ''u'' 3 300
     = (Inr (JNum (Fin 7)), [Fetch ''u'', Sleep 300, Fetch ''u'', Sleep 600, Fetch ''u''])
   \<and> fetchTextWithRetry world_third_time ''u'' 3 300
     = (Inr ''7'', [Fetch ''u'', Sleep 300, Fetch ''u'', Sleep 600, Fetch ''u''])"
proof -
  note T = retry_bounded_linear_backoff [of world_unavailable "''u''" 3 300]
  note S = retry_bounded_linear_backoff [of world_third_time "''u''" 3 300]
  have aj: "\<And>j. fetchJson_attempt world_unavailable ''u'' j = Inl (Error ''HTTP 503 u'')"
    by (simp add: fetchJson_attempt_def world_unavailable_def ok_def show_nat_503)
  have at: "\<And>j. fetchText_attempt world_unavailable ''u'' j = Inl (Error ''HTTP 503 u'')"
    by (simp add: fetchText_attempt_def world_unavailable_def ok_def show_nat_503)
  have sj: "\<And>j. fetchJson_attempt world_third_time ''u'' j
              = (if j < 2 then Inl (TypeError ''fetch failed'') else Inr (JNum (Fin 7)))"
    by (simp add: fetchJson_attempt_def world_third_time_def ok_def)
  have st: "\<And>j. fetchText_attempt world_third_time ''u'' j
              = (if j < 2 then Inl (TypeError ''fetch failed'') else Inr ''7'')"
    by (simp add: fetchText_attempt_def world_third_time_def ok_def)
  have 1: "fetchJsonWithRetry world_unavailable ''u'' 3 300
             = (fetchJson_attempt world_unavailable ''u'' (3 - 1), retry_trace ''u'' 3 300 0 3)"
    using T by (simp add: aj)
  have 2: "fetchTextWithRetry world_unavailable ''u'' 3 300
             = (fetchText_attempt world_unavailable ''u'' (3 - 1), retry_trace ''u'' 3 300 0 3)"
    using T by (simp add: at)
  have "(2::nat) < 3 \<and> (\<forall>j<2. isl (fetchJson_attempt world_third_time ''u'' j))
          \<and> fetchJson_attempt world_third_time ''u'' 2 = Inr (JNum (Fin 7))"
    by (simp add: sj)
  with S have 3: "fetchJsonWithRetry world_third_time ''u'' 3 300
             = (Inr (JNum (Fin 7)), retry_trace ''u'' 3 300 0 2 @ [Fetch ''u''])"
    by blast
  have "(2::nat) < 3 \<and> (\<forall>j<2. isl (fetchText_attempt world_third_time ''u'' j))
          \<and> fetchText_attempt world_third_time ''u'' 2 = Inr ''7''"
    by (simp add: st)
  with S have 4: "fetchTextWithRetry world_third_time ''u'' 3 300
             = (Inr ''7'', retry_trace ''u'' 3 300 0 2 @ [Fetch ''u''])"
    by blast
  show ?thesis
    by (simp add: 1 2 3 4 aj at retry_trace_3 retry_trace_2)
qed

section \<open>What the sources leave in the trace\<close>

lemma invoked_fetchJsonWithRetry [simp]: "invoked (snd (fetchJsonWithRetry w url n d)) = []"
  by (simp add: fetchJsonWithRetry_def retry_loop_invoked)

lemma invoked_fetchTextWithRetry [simp]: "invoked (snd (fetchTextWithRetry w url n d)) = []"
  by (simp add: fetchTextWithRetry_def retry_loop_invoked)






lemma invoked_tdGold [simp]: "invoked (snd (tdGold w)) = []"
  by (simp add: tdGold_def Let_def)

lemma invoked_fmpGold [simp]: "invoked (snd (fmpGold w)) = []"
  by (simp add: fmpGold_def Let_def)

lemma invoked_fredLatestPair [simp]: "invoked (snd (fredLatestPair sid w)) = []"
  by (simp add: fredLatestPair_def Let_def)


section \<open>The handler of vixIndex.js, path by path\<close>





lemma vix_handler_all_failed:
  "fromFRED w = (Inl e1, ev1) \<Longrightarrow> fromFMP w = (Inl e2, ev2) \<Longrightarrow> fromCBOE w = (Inl e3, ev3) \<Longrightarrow>
   fromStooq w = (Inl e4, ev4) \<Longrightarrow>
   vix_handler w cached now stamp =
     ((if c_price cached \<noteq> None \<and> now - c_timestamp cached < 7200000
       then cached_response cached
              [tried_failed ''FRED'' e1, tried_failed ''FMP'' e2, tried_failed ''CBOE'' e3,
               tried_failed ''Stooq'' e4] stamp
       else failed_response
              [tried_failed ''FRED'' e1, tried_failed ''FMP'' e2, tried_failed ''CBOE'' e3,
               tried_failed ''Stooq'' e4] stamp),
      cached,
      Invoke ''fromFRED'' # ev1 @ Invoke ''fromFMP'' # ev2 @ Invoke ''fromCBOE'' # ev3
      @ Invoke ''fromStooq'' # ev4)"
  by (simp add: vix_handler_def Let_def)

lemma failed_source: "isl (fst p) \<Longrightarrow> \<exists>e evs. p = (Inl e, evs)"
  by (cases p) (auto simp: isl_def)


section \<open>The loop of gold.js\<close>






lemma all_sources_failed:
  assumes "\<forall>j<length vix_sources. isl (fst (snd (vix_sources ! j) w))"
  shows "\<exists>e1 ev1 e2 ev2 e3 ev3 e4 ev4.
           fromFRED w = (Inl e1, ev1) \<and> fromFMP w = (Inl e2, ev2)
           \<and> fromCBOE w = (Inl e3, ev3) \<and> fromStooq w = (Inl e4, ev4)"
proof -
  have "isl (fst (fromFRED w))" "isl (fst (fromFMP w))" "isl (fst (fromCBOE w))"
    "isl (fst (fromStooq w))"
    using assms spec [OF assms, of 0] spec [OF assms, of 1] spec [OF assms, of 2]
      spec [OF assms, of 3]
    by (simp_all add: vix_sources_def)
  then show ?thesis
    using failed_source [of "fromFRED w"] failed_source [of "fromFMP w"]
      failed_source [of "fromCBOE w"] failed_source [of "fromStooq w"] by auto
qed

text \<open>
  C2.  In vixIndex.js, when all four sources fail and \<open>cached\<close> holds a price \<open>p\<close> and is
  less than two hours old, the handler answers with status 200 and a body with that
  price, the cached \<open>changePercent\<close>, the cached source followed by \<open>'' (cached)''\<close>, and
  the four diagnostics as \<open>_debug.tried\<close>; \<open>cached\<close> is left as it is.
\<close>

theorem cached_fallback:
  "(\<forall>j<length vix_sources. isl (fst (snd (vix_sources ! j) w)))
   \<and> c_price cached = Some p \<and> now - c_timestamp cached < 2 * 60 * 60 * 1000
   \<longrightarrow> (\<exists>evs tried.
          vix_handler w cached now stamp = (cached_response cached tried stamp, cached, evs)
          \<and> statusCode (cached_response cached tried stamp) = 200
          \<and> body (cached_response cached tried stamp)
              = JObj [(''price'', json_num p),
                      (''changePercent'', json_opt_num (c_changePercent cached)),
                      (''source'', JStr (c_source cached @ '' (cached)'')),
                      (''timestamp'', JStr stamp),
                      (''_debug'', JObj [(''tried'', JArr tried)])]
          \<and> tried = [tried_failed ''FRED'' (projl (fst (fromFRED w))),
                      tried_failed ''FMP'' (projl (fst (fromFMP w))),
                      tried_failed ''CBOE'' (projl (fst (fromCBOE w))),
                      tried_failed ''Stooq'' (projl (fst (fromStooq w)))])"
proof
  assume a: "(\<forall>j<length vix_sources. isl (fst (snd (vix_sources ! j) w)))
   \<and> c_price cached = Some p \<and> now - c_timestamp cached < 2 * 60 * 60 * 1000"
  then obtain e1 ev1 e2 ev2 e3 ev3 e4 ev4 where eqs:
    "fromFRED w = (Inl e1, ev1)" "fromFMP w = (Inl e2, ev2)"
    "fromCBOE w = (Inl e3, ev3)" "fromStooq w = (Inl e4, ev4)"
    using all_sources_failed [of w] by blast
  show "\<exists>evs tried.
          vix_handler w cached now stamp = (cached_response cached tried stamp, cached, evs)
          \<and> statusCode (cached_response cached tried stamp) = 200
          \<and> body (cached_response cached tried stamp)
              = JObj [(''price'', json_num p),
                      (''changePercent'', json_opt_num (c_changePercent cached)),
                      (''source'', JStr (c_source cached @ '' (cached)'')),
                      (''timestamp'', JStr stamp),
                      (''_debug'', JObj [(''tried'', JArr tried)])]
          \<and> tried = [tried_failed ''FRED'' (projl (fst (fromFRED w))),
                      tried_failed ''FMP'' (projl (fst (fromFMP w))),
                      tried_failed ''CBOE'' (projl (fst (fromCBOE w))),
                      tried_failed ''Stooq'' (projl (fst (fromStooq w)))]"
    using a by (simp add: vix_handler_all_failed [OF eqs] eqs cached_response_def)
qed

text \<open>
  C3, as amended.  In vixIndex.js, when all four sources fail and \<open>cached\<close> holds no price
  or is two hours old or older, the answer has status 500 and the body
  \<open>{ error, _debug: { tried }, timestamp }\<close> where \<open>tried\<close> has one entry per source, each
  with \<open>ok: false\<close>.  In dxy.js, when the one source fails, the answer has status 500 and the
  body \<open>{ error, timestamp }\<close>, with the message of the error and no \<open>_debug\<close>.
\<close>

theorem total_failure_responses:
  "((\<forall>j<length vix_sources. isl (fst (snd (vix_sources ! j) w)))
     \<and> (c_price cached = None \<or> 2 * 60 * 60 * 1000 \<le> now - c_timestamp cached)
     \<longrightarrow> (\<exists>evs tried.
            vix_handler w cached now stamp = (failed_response tried stamp, cached, evs)
            \<and> statusCode (failed_response tried stamp) = 500
            \<and> body (failed_response tried stamp)
                = JObj [(''error'', JStr ''All sources failed and no fresh cache''),
                        (''_debug'', JObj [(''tried'', JArr tried)]),
                        (''timestamp'', JStr stamp)]
            \<and> length tried = length vix_sources
            \<and> (\<forall>t \<in> set tried. get t ''ok'' = JBool False)))
   \<and> (isl (fst (dxy_try w))
     \<longrightarrow> (\<exists>evs err.
            dxy_handler w stamp = (dxy_failure err stamp, evs)
            \<and> fst (dxy_try w) = Inl err
            \<and> statusCode (dxy_failure err stamp) = 500
            \<and> body (dxy_failure err stamp)
                = JObj [(''error'', JStr (message err)), (''timestamp'', JStr stamp)]))"
proof (intro conjI impI)
  assume a: "(\<forall>j<length vix_sources. isl (fst (snd (vix_sources ! j) w)))
     \<and> (c_price cached = None \<or> 2 * 60 * 60 * 1000 \<le> now - c_timestamp cached)"
  then obtain e1 ev1 e2 ev2 e3 ev3 e4 ev4 where eqs:
    "fromFRED w = (Inl e1, ev1)" "fromFMP w = (Inl e2, ev2)"
    "fromCBOE w = (Inl e3, ev3)" "fromStooq w = (Inl e4, ev4)"
    using all_sources_failed [of w] by blast
  from a have c: "(if c_price cached \<noteq> None \<and> now - c_timestamp cached < 7200000 then A else B) = B"
    for A B :: http_response
    by auto
  have h: "vix_handler w cached now stamp
             = (failed_response [tried_failed ''FRED'' e1, tried_failed ''FMP'' e2,
                                 tried_failed ''CBOE'' e3, tried_failed ''Stooq'' e4] stamp,
                cached,
                Invoke ''fromFRED'' # ev1 @ Invoke ''fromFMP'' # ev2 @ Invoke ''fromCBOE'' # ev3
                @ Invoke ''fromStooq'' # ev4)"
    unfolding vix_handler_all_failed [OF eqs] c by (rule refl)
  show "\<exists>evs tried.
            vix_handler w cached now stamp = (failed_response tried stamp, cached, evs)
            \<and> statusCode (failed_response tried stamp) = 500
            \<and> body (failed_response tried stamp)
                = JObj [(''error'', JStr ''All sources failed and no fresh cache''),
                        (''_debug'', JObj [(''tried'', JArr tried)]),
                        (''timestamp'', JStr stamp)]
            \<and> length tried = length vix_sources
            \<and> (\<forall>t \<in> set tried. get t ''ok'' = JBool False)"
    unfolding h by (simp add: failed_response_def tried_failed_def vix_sources_def)
next
  assume "isl (fst (dxy_try w))"
  then obtain err evs where "dxy_try w = (Inl err, evs)"
    using failed_source by blast
  then show "\<exists>evs err.
            dxy_handler w stamp = (dxy_failure err stamp, evs)
            \<and> fst (dxy_try w) = Inl err
            \<and> statusCode (dxy_failure err stamp) = 500
            \<and> body (dxy_failure err stamp)
                = JObj [(''error'', JStr (message err)), (''timestamp'', JStr stamp)]"
    by (simp add: dxy_handler_def dxy_failure_def)
qed

lemma sources_world_unavailable:
  "isl (fst (fromFRED world_unavailable))" "isl (fst (fromFMP world_unavailable))"
  "isl (fst (fromCBOE world_unavailable))" "isl (fst (fromStooq world_unavailable))"
  by code_simp+

lemma vix_sources_world_unavailable:
  "\<forall>j<length vix_sources. isl (fst (snd (vix_sources ! j) world_unavailable))"
proof (intro allI impI)
  fix j assume "j < length vix_sources"
  then have "j < 4" by (simp add: vix_sources_def)
  then consider "j = 0" | "j = 1" | "j = 2" | "j = 3" by linarith
  then show "isl (fst (snd (vix_sources ! j) world_unavailable))"
    by cases (simp_all add: vix_sources_def sources_world_unavailable numeral_2_eq_2 numeral_3_eq_3)
qed

lemma dxy_world_unavailable:
  "dxy_try world_unavailable
     = (Inl (Error ''FRED HTTP 503''),
        [Fetch ''https://api.stlouisfed.org/fred/series/observations?series_id=DTWEXBGS&api_key=fk&file_type=json&sort_order=desc&limit=25''])"
  by code_simp

theorem total_failure_responses_witness:
  "(\<exists>evs tried. vix_handler world_unavailable cached_init 1000 ''T''
                   = (failed_response tried ''T'', cached_init, evs)
                 \<and> statusCode (failed_response tried ''T'') = 500 \<and> length tried = 4)
   \<and> (\<exists>evs. dxy_handler world_unavailable ''T''
             = (dxy_failure (Error ''FRED HTTP 503'') ''T'', evs))"
proof -
  note T = total_failure_responses [of world_unavailable cached_init 1000 "''T''"]
  have v: "(\<forall>j<length vix_sources. isl (fst (snd (vix_sources ! j) world_unavailable)))
     \<and> (c_price cached_init = None \<or> 2 * 60 * 60 * 1000 \<le> 1000 - c_timestamp cached_init)"
    using vix_sources_world_unavailable by (simp add: cached_init_def)
  have d: "isl (fst (dxy_try world_unavailable))"
    by (simp add: dxy_world_unavailable)
  from T v obtain evs tried where
    "vix_handler world_unavailable cached_init 1000 ''T''
       = (failed_response tried ''T'', cached_init, evs)"
    "statusCode (failed_response tried ''T'') = 500" "length tried = length vix_sources"
    by blast
  then have 1: "\<exists>evs tried. vix_handler world_unavailable cached_init 1000 ''T''
                   = (failed_response tried ''T'', cached_init, evs)
                 \<and> statusCode (failed_response tried ''T'') = 500 \<and> length tried = 4"
    by (intro exI [of _ evs] exI [of _ tried]) (simp add: vix_sources_def)
  from T d obtain evs' err where
    "dxy_handler world_unavailable ''T'' = (dxy_failure err ''T'', evs')"
    "fst (dxy_try world_unavailable) = Inl err"
    by blast
  then have 2: "\<exists>evs. dxy_handler world_unavailable ''T''
             = (dxy_failure (Error ''FRED HTTP 503'') ''T'', evs)"
    by (simp add: dxy_world_unavailable)
  from 1 2 show ?thesis by (rule conjI)
qed

text \<open>
  C3 as stated fails for dxy.js: with every request answered 503 its one source fails, and
  the body of the 500 answer is \<open>{ error, timestamp }\<close>; there is no \<open>_debug.tried\<close> in it.
\<close>

theorem dxy_failure_has_no_debug:
  "isl (fst (dxy_try world_unavailable))
   \<and> statusCode (fst (dxy_handler world_unavailable ''T'')) = 500
   \<and> body (fst (dxy_handler world_unavailable ''T''))
       = JObj [(''error'', JStr ''FRED HTTP 503''), (''timestamp'', JStr ''T'')]
   \<and> \<not> (\<exists>tried. get (get (body (fst (dxy_handler world_unavailable ''T''))) ''_debug'') ''tried''
                   = JArr tried)"
  by (simp add: dxy_handler_def dxy_world_unavailable dxy_failure_def)


theorem cached_fallback_witness:
  "\<exists>evs tried. vix_handler world_unavailable cache_half_hour_old 1800000 ''T''
                  = (cached_response cache_half_hour_old tried ''T'', cache_half_hour_old, evs)
                \<and> body (cached_response cache_half_hour_old tried ''T'')
                    = JObj [(''price'', JNum (Fin 20)), (''changePercent'', JNull),
                            (''source'', JStr ''CBOE CSV (cached)''), (''timestamp'', JStr ''T''),
                            (''_debug'', JObj [(''tried'', JArr tried)])]
                \<and> length tried = 4"
proof -
  have h: "(\<forall>j<length vix_sources. isl (fst (snd (vix_sources ! j) world_unavailable)))
     \<and> c_price cache_half_hour_old = Some (Fin 20)
     \<and> 1800000 - c_timestamp cache_half_hour_old < 2 * 60 * 60 * 1000"
    using vix_sources_world_unavailable by (simp add: cache_half_hour_old_def cache_of_def)
  from cached_fallback [of world_unavailable cache_half_hour_old "Fin 20" 1800000 "''T''"] h
  obtain evs tried where
    "vix_handler world_unavailable cache_half_hour_old 1800000 ''T''
       = (cached_response cache_half_hour_old tried ''T'', cache_half_hour_old, evs)"
    "body (cached_response cache_half_hour_old tried ''T'')
       = JObj [(''price'', json_num (Fin 20)),
               (''changePercent'', json_opt_num (c_changePercent cache_half_hour_old)),
               (''source'', JStr (c_source cache_half_hour_old @ '' (cached)'')),
               (''timestamp'', JStr ''T''),
               (''_debug'', JObj [(''tried'', JArr tried)])]"
    "tried = [tried_failed ''FRED'' (projl (fst (fromFRED world_unavailable))),
              tried_failed ''FMP'' (projl (fst (fromFMP world_unavailable))),
              tried_failed ''CBOE'' (projl (fst (fromCBOE world_unavailable))),
              tried_failed ''Stooq'' (projl (fst (fromStooq world_unavailable)))]"
    by blast
  then show ?thesis
    by (intro exI [of _ evs] exI [of _ tried]) (simp add: cache_half_hour_old_def cache_of_def)
qed

section \<open>gold.js when every source fails\<close>

lemma gold_loop_all_fail:
  "(\<forall>nf \<in> set fs. isl (fst (snd nf w)) \<and> invoked (snd (snd nf w)) = []) \<Longrightarrow>
   \<exists>evs. gold_loop fs w stamp tried
           = (gold_failure (tried @ map (\<lambda>nf. tried_message (projl (fst (snd nf w)))) fs) stamp, evs)
         \<and> invoked evs = map fst fs"
proof (induction fs arbitrary: tried)
  case Nil
  then show ?case by simp
next
  case (Cons nf rest)
  obtain name fn where nf: "nf = (name, fn)" by (cases nf)
  with Cons.prems have "isl (fst (fn w))" by simp
  then obtain e ev where f: "fn w = (Inl e, ev)" using failed_source by blast
  with Cons.prems nf have iv: "invoked ev = []" by simp
  from Cons.prems obtain evs where
    "gold_loop rest w stamp (tried @ [tried_message e])
       = (gold_failure ((tried @ [tried_message e])
                        @ map (\<lambda>nf. tried_message (projl (fst (snd nf w)))) rest) stamp, evs)"
    "invoked evs = map fst rest"
    using Cons.IH [of "tried @ [tried_message e]"] by auto
  with f nf iv show ?case by simp
qed

text \<open>
  C6, as amended.  In gold.js, when all four sources fail, the answer has status 200 and
  the body \<open>{ error, _debug: { tried }, timestamp }\<close> with the error text
  \<open>All gold sources failed\<close> and the four failure messages in \<open>tried\<close>, in order.
\<close>

theorem gold_total_failure:
  "(\<forall>j<length gold_attempts. isl (fst (snd (gold_attempts ! j) w)))
   \<longrightarrow> (\<exists>evs tried.
          gold_handler w stamp = (gold_failure tried stamp, evs)
          \<and> statusCode (gold_failure tried stamp) = 200
          \<and> body (gold_failure tried stamp)
              = JObj [(''error'', JStr ''All gold sources failed''),
                      (''_debug'', JObj [(''tried'', JArr (map JStr tried))]),
                      (''timestamp'', JStr stamp)]
          \<and> tried = map (\<lambda>nf. tried_message (projl (fst (snd nf w)))) gold_attempts
          \<and> invoked evs = map fst gold_attempts)"
proof
  assume a: "\<forall>j<length gold_attempts. isl (fst (snd (gold_attempts ! j) w))"
  have "\<forall>nf \<in> set gold_attempts. isl (fst (snd nf w)) \<and> invoked (snd (snd nf w)) = []"
  proof
    fix nf assume "nf \<in> set gold_attempts"
    then obtain j where "j < length gold_attempts" "nf = gold_attempts ! j"
      by (metis in_set_conv_nth)
    with a have "isl (fst (snd nf w))" by simp
    moreover from \<open>nf \<in> set gold_attempts\<close> have "invoked (snd (snd nf w)) = []"
      by (auto simp add: gold_attempts_def)
    ultimately show "isl (fst (snd nf w)) \<and> invoked (snd (snd nf w)) = []" by simp
  qed
  from gold_loop_all_fail [OF this, of stamp "[]"]
  show "\<exists>evs tried.
          gold_handler w stamp = (gold_failure tried stamp, evs)
          \<and> statusCode (gold_failure tried stamp) = 200
          \<and> body (gold_failure tried stamp)
              = JObj [(''error'', JStr ''All gold sources failed''),
                      (''_debug'', JObj [(''tried'', JArr (map JStr tried))]),
                      (''timestamp'', JStr stamp)]
          \<and> tried = map (\<lambda>nf. tried_message (projl (fst (snd nf w)))) gold_attempts
          \<and> invoked evs = map fst gold_attempts"
    by (auto simp add: gold_handler_def gold_failure_def)
qed

lemma gold_world_unavailable:
  "gold_handler world_unavailable ''T''
     = (gold_failure [''TwelveData HTTP 503'', ''FMP HTTP 503'',
                      ''FRED HTTP 503 (GOLDPMGBD228NLBM) - busy'',
                      ''FRED HTTP 503 (GOLDAMGBD228NLBM) - busy''] ''T'',
        [Invoke ''tdGold'',
         Fetch ''https://api.twelvedata.com/quote?symbol=XAU%2FUSD&apikey=tk'',
         Invoke ''fmpGold'',
         Fetch ''https://financialmodelingprep.com/api/v3/quote/GC%3DF?apikey=mk'',
         Invoke ''fredLatestPair GOLDPMGBD228NLBM'',
         Fetch ''https://api.stlouisfed.org/fred/series/observations?series_id=GOLDPMGBD228NLBM&api_key=fk&file_type=json'',
         Invoke ''fredLatestPair GOLDAMGBD228NLBM'',
         Fetch ''https://api.stlouisfed.org/fred/series/observations?series_id=GOLDAMGBD228NLBM&api_key=fk&file_type=json''])"
  by code_simp

lemma gold_sources_world_unavailable:
  "isl (fst (tdGold world_unavailable))" "isl (fst (fmpGold world_unavailable))"
  "isl (fst (fredLatestPair ''GOLDPMGBD228NLBM'' world_unavailable))"
  "isl (fst (fredLatestPair ''GOLDAMGBD228NLBM'' world_unavailable))"
  by code_simp+

lemma gold_attempts_world_unavailable:
  "\<forall>j<length gold_attempts. isl (fst (snd (gold_attempts ! j) world_unavailable))"
proof (intro allI impI)
  fix j assume "j < length gold_attempts"
  then have "j < 4" by (simp add: gold_attempts_def)
  then consider "j = 0" | "j = 1" | "j = 2" | "j = 3" by linarith
  then show "isl (fst (snd (gold_attempts ! j) world_unavailable))"
    by cases (simp_all add: gold_attempts_def gold_sources_world_unavailable numeral_2_eq_2
                numeral_3_eq_3)
qed

theorem gold_total_failure_witness:
  "\<exists>evs tried. gold_handler world_unavailable ''T'' = (gold_failure tried ''T'', evs)
     \<and> statusCode (gold_failure tried ''T'') = 200
     \<and> length tried = 4
     \<and> invoked evs = [''tdGold'', ''fmpGold'', ''fredLatestPair GOLDPMGBD228NLBM'',
                       ''fredLatestPair GOLDAMGBD228NLBM'']"
proof -
  from gold_total_failure [of world_unavailable "''T''"] gold_attempts_world_unavailable
  obtain evs tried where
    "gold_handler world_unavailable ''T'' = (gold_failure tried ''T'', evs)"
    "statusCode (gold_failure tried ''T'') = 200"
    "tried = map (\<lambda>nf. tried_message (projl (fst (snd nf world_unavailable)))) gold_attempts"
    "invoked evs = map fst gold_attempts"
    by blast
  then show ?thesis
    by (intro exI [of _ evs] exI [of _ tried]) (simp add: gold_attempts_def)
qed

text \<open>
  C6 as stated fails: with every request answered 503 all four sources fail, the status is
  200, and the body has neither \<open>price\<close> nor \<open>pct\<close>; it has \<open>error\<close>.
\<close>

theorem gold_failure_is_not_a_zero_payload:
  "isl (fst (tdGold world_unavailable)) \<and> isl (fst (fmpGold world_unavailable))
   \<and> isl (fst (fredLatestPair ''GOLDPMGBD228NLBM'' world_unavailable))
   \<and> isl (fst (fredLatestPair ''GOLDAMGBD228NLBM'' world_unavailable))
   \<and> statusCode (fst (gold_handler world_unavailable ''T'')) = 200
   \<and> get (body (fst (gold_handler world_unavailable ''T''))) ''price'' \<noteq> JNum (Fin 0)
   \<and> get (body (fst (gold_handler world_unavailable ''T''))) ''price'' = JUndefined
   \<and> get (body (fst (gold_handler world_unavailable ''T''))) ''pct'' = JUndefined
   \<and> get (body (fst (gold_handler world_unavailable ''T''))) ''error''
       = JStr ''All gold sources failed''"
  by (simp add: gold_sources_world_unavailable gold_world_unavailable gold_failure_def)

section \<open>The cache of vixIndex.js over a run\<close>









lemma length_vix_run [simp]: "length (vix_run c invs) = length invs"
  by (induction invs arbitrary: c) (auto split: prod.splits)






section \<open>The change percentage\<close>

lemma last_two_nth:
  "(xs @ [a, b]) ! (length (xs @ [a, b]) - 1) = b"
  "(xs @ [a, b]) ! (length (xs @ [a, b]) - 2) = a"
  by (simp_all add: nth_append)

lemma fredLatestPair_latest_two:
  "fredLatestPair_latest sid (xs @ [gp, gl])
     = Inr \<lparr>gprice = gvalue gl,
            pct = (if isFinite (gvalue gp) \<and> gvalue gp \<noteq> Fin 0
                   then Some (pct_change (gvalue gl) (gvalue gp)) else None),
            gsource = ''FRED '' @ sid\<rparr>"
  using last_two_nth [of xs gp gl]
  by (simp add: fredLatestPair_latest_def Let_def)

lemma fredLatestPair_all_latest_two:
  "fredLatestPair_all_latest sid (xs @ [gp, gl])
     = Inr \<lparr>pprice = gvalue gl,
            ppct = (if truthy (JNum (gvalue gp))
                    then Some (pct_change (gvalue gl) (gvalue gp)) else None)\<rparr>"
  using last_two_nth [of xs gp gl]
  by (simp add: fredLatestPair_all_latest_def Let_def)

lemma fromFRED_quote_two:
  "fromFRED_quote (l # p # rest)
     = Inr \<lparr>price = number_toFixed2 (val l),
            changePercent = (if val p \<noteq> Fin 0 then Some (pct_change (val l) (val p)) else None),
            source = ''FRED VIXCLS (daily close)''\<rparr>"
  by (simp add: fromFRED_quote_def Let_def)

text \<open>
  With three lines or more, \<open>fromCBOE\<close> and \<open>fromStooq\<close> are decided by the last two lines.
\<close>

lemma fromCBOE_latest_rows:
  "3 \<le> length lines \<Longrightarrow>
   fromCBOE_latest lines =
     (let lastrow = lines ! (length lines - 1); prevrow = lines ! (length lines - 2)
      in if length (split_on (CHR '','') lastrow) < 5 then Inl (Error ''CBOE: malformed row'')
         else if \<not> isFinite (close_of_row lastrow) then Inl (Error ''CBOE: bad close'')
         else Inr \<lparr>price = number_toFixed2 (close_of_row lastrow),
                   changePercent =
                     (if isFinite (close_of_row prevrow) \<and> close_of_row prevrow \<noteq> Fin 0
                      then Some (pct_change (close_of_row lastrow) (close_of_row prevrow))
                      else None),
                   source = ''CBOE CSV''\<rparr>)"
  by (auto simp add: fromCBOE_latest_def close_of_row_def Let_def)

lemma fromStooq_latest_rows:
  "3 \<le> length lines \<Longrightarrow>
   fromStooq_latest lines =
     (let lastrow = lines ! (length lines - 1); prevrow = lines ! (length lines - 2)
      in if length (split_on (CHR '','') lastrow) < 5 then Inl (Error ''Stooq: malformed row'')
         else if \<not> isFinite (close_of_row lastrow) then Inl (Error ''Stooq: bad close'')
         else Inr \<lparr>price = number_toFixed2 (close_of_row lastrow),
                   changePercent =
                     (if isFinite (close_of_row prevrow) \<and> close_of_row prevrow \<noteq> Fin 0
                      then Some (pct_change (close_of_row lastrow) (close_of_row prevrow))
                      else None),
                   source = ''Stooq CSV''\<rparr>)"
  by (auto simp add: fromStooq_latest_def close_of_row_def Let_def)

lemma dxy_latest_two:
  "2 \<le> length obs \<Longrightarrow>
   dxy_latest obs =
     (let latest = to_parseFloat (get (obs ! 0) ''value'');
          prior = to_parseFloat (get (obs ! 1) ''value'')
      in if \<not> isFinite latest \<or> \<not> isFinite prior then Inl (Error ''DXY NaN'')
         else Inr \<lparr>price = number_toFixed2 latest,
                   changePercent = Some (pct_change latest prior),
                   source = ''FRED DTWEXBGS''\<rparr>)"
  by (auto simp add: dxy_latest_def pct_change_def Let_def)

lemma num_div_zero_not_finite: "\<not> isFinite (num_div y (Fin 0))"
  by (cases y) simp_all

lemma num_mul_not_finite: "\<not> isFinite y \<Longrightarrow> \<not> isFinite (num_mul y (Fin 100))"
  by (cases y) simp_all

lemma number_toFixed2_not_finite: "\<not> isFinite y \<Longrightarrow> \<not> isFinite (number_toFixed2 y)"
  by (cases y) simp_all

lemma pct_change_zero_not_finite: "\<not> isFinite (pct_change latest (Fin 0))"
  unfolding pct_change_def
  by (intro number_toFixed2_not_finite num_mul_not_finite num_div_zero_not_finite)

lemma json_num_not_finite: "\<not> isFinite x \<Longrightarrow> json_num x = JNull"
  by (cases x) auto

text \<open>
  C5.  Wherever a change percentage is computed from two observations, a previous value
  of 0 gives \<open>null\<close>: \<open>fromFRED\<close>, \<open>fromCBOE\<close>, \<open>fromStooq\<close> and both \<open>fredLatestPair\<close>
  return \<open>changePercent\<close> (or \<open>pct\<close>) \<open>null\<close>, and the body that dxy.js answers with has
  \<open>changePercent: null\<close>.  (dxy.js divides without a guard; the quotient is not finite and
  \<open>JSON.stringify\<close> writes it as \<open>null\<close>.)
\<close>

theorem zero_previous_gives_null:
  "(val p = Fin 0
      \<longrightarrow> (\<exists>r. fromFRED_quote (l # p # rest) = Inr r \<and> changePercent r = None))
   \<and> (3 \<le> length lines \<and> close_of_row (lines ! (length lines - 2)) = Fin 0
        \<and> fromCBOE_latest lines = Inr r1
      \<longrightarrow> changePercent r1 = None)
   \<and> (3 \<le> length lines \<and> close_of_row (lines ! (length lines - 2)) = Fin 0
        \<and> fromStooq_latest lines = Inr r2
      \<longrightarrow> changePercent r2 = None)
   \<and> (gvalue gp = Fin 0
      \<longrightarrow> (\<exists>r. fredLatestPair_latest sid (xs @ [gp, gl]) = Inr r \<and> pct r = None)
          \<and> (\<exists>r. fredLatestPair_all_latest sid (xs @ [gp, gl]) = Inr r \<and> ppct r = None))
   \<and> (2 \<le> length obs \<and> to_parseFloat (get (obs ! 1) ''value'') = Fin 0
        \<and> dxy_latest obs = Inr r3
      \<longrightarrow> get (body (dxy_success r3 stamp)) ''changePercent'' = JNull)"
proof (intro conjI impI)
  assume "val p = Fin 0"
  then show "\<exists>r. fromFRED_quote (l # p # rest) = Inr r \<and> changePercent r = None"
    by (simp add: fromFRED_quote_two)
next
  assume "3 \<le> length lines \<and> close_of_row (lines ! (length lines - 2)) = Fin 0
        \<and> fromCBOE_latest lines = Inr r1"
  then show "changePercent r1 = None"
    by (auto simp add: fromCBOE_latest_rows Let_def split: if_splits)
next
  assume "3 \<le> length lines \<and> close_of_row (lines ! (length lines - 2)) = Fin 0
        \<and> fromStooq_latest lines = Inr r2"
  then show "changePercent r2 = None"
    by (auto simp add: fromStooq_latest_rows Let_def split: if_splits)
next
  assume "gvalue gp = Fin 0"
  then show "\<exists>r. fredLatestPair_latest sid (xs @ [gp, gl]) = Inr r \<and> pct r = None"
    by (simp add: fredLatestPair_latest_two)
next
  assume "gvalue gp = Fin 0"
  then show "\<exists>r. fredLatestPair_all_latest sid (xs @ [gp, gl]) = Inr r \<and> ppct r = None"
    by (simp add: fredLatestPair_all_latest_two)
next
  assume a: "2 \<le> length obs \<and> to_parseFloat (get (obs ! 1) ''value'') = Fin 0
        \<and> dxy_latest obs = Inr r3"
  then have "isFinite (to_parseFloat (get (obs ! 0) ''value''))"
    and "changePercent r3 = Some (pct_change (to_parseFloat (get (obs ! 0) ''value'')) (Fin 0))"
    by (auto simp add: dxy_latest_two Let_def split: if_splits)
  then show "get (body (dxy_success r3 stamp)) ''changePercent'' = JNull"
    by (simp add: dxy_success_def json_num_not_finite pct_change_zero_not_finite)
qed

section \<open>Rounding to two decimals\<close>

lemma nearest_cents_close: "\<bar>of_int (nearest_cents x) / 100 - \<bar>x\<bar>\<bar> \<le> 1 / 200"
proof -
  define c where "c = nearest_cents x"
  have 1: "of_int c \<le> \<bar>x\<bar> * 100 + 1 / 2"
    unfolding c_def nearest_cents_def by (rule of_int_floor_le)
  have 2: "\<bar>x\<bar> * 100 + 1 / 2 < of_int c + 1"
    unfolding c_def nearest_cents_def
    using floor_correct [of "\<bar>x\<bar> * 100 + 1 / 2"] by simp
  define y where "y = \<bar>x\<bar>"
  from 1 2 have "of_int c \<le> y * 100 + 1 / 2" "y * 100 + 1 / 2 < of_int c + 1"
    by (simp_all add: y_def)
  then have "\<bar>of_int c / 100 - y\<bar> \<le> 1 / 200" by linarith
  then show ?thesis unfolding c_def y_def .
qed


lemma number_toFixed2_rounds:
  assumes "\<bar>x\<bar> < 10 ^ 21"
  shows "\<exists>n::int. number_toFixed2 (Fin x) = round_double (of_int n / 100)
                 \<and> \<bar>of_int n / 100 - x\<bar> \<le> 1 / 200"
proof (cases "x < 0")
  case True
  then have ax: "\<bar>x\<bar> = - x" by simp
  have c: "\<bar>of_int (nearest_cents x) / 100 - \<bar>x\<bar>\<bar> \<le> 1 / 200"
    by (rule nearest_cents_close)
  have 1: "number_toFixed2 (Fin x) = round_double (of_int (- nearest_cents x) / 100)"
    using True assms by simp
  have 2: "\<bar>of_int (- nearest_cents x) / 100 - x\<bar> \<le> 1 / 200"
  proof -
    have "\<bar>of_int (nearest_cents x) / 100 - (- x)\<bar> \<le> 1 / 200"
      using c unfolding ax .
    then have "\<bar>- (of_int (nearest_cents x) / 100) - x\<bar> \<le> 1 / 200"
      by linarith
    then show ?thesis by simp
  qed
  from 1 2 show ?thesis by blast
next
  case False
  then have ax: "\<bar>x\<bar> = x" by simp
  have c: "\<bar>of_int (nearest_cents x) / 100 - \<bar>x\<bar>\<bar> \<le> 1 / 200"
    by (rule nearest_cents_close)
  have 1: "number_toFixed2 (Fin x) = round_double (of_int (nearest_cents x) / 100)"
    using False assms by simp
  have 2: "\<bar>of_int (nearest_cents x) / 100 - x\<bar> \<le> 1 / 200"
    using c unfolding ax .
  from 1 2 show ?thesis by blast
qed

lemma pct_change_25_20: "pct_change (Fin 25) (Fin 20) = Fin 25"
  by code_simp

text \<open>
  C9.  The change percentage is \<open>((latest - prev) / prev) * 100\<close> put through
  \<open>toFixed(2)\<close> and read back: for a value below \<open>10^21\<close> in magnitude that is the
  number nearest to a multiple \<open>n / 100\<close> of a hundredth which is within half a hundredth
  of the value.  For 25 and 20 it is 25.  Every function that computes the percentage
  from two observations, both finite and the previous one not 0, returns this value.
\<close>

theorem change_percent_two_decimals:
  "pct_change latest prev = number_toFixed2 (num_mul (num_div (num_sub latest prev) prev) (Fin 100))
   \<and> (\<bar>x\<bar> < 10 ^ 21
      \<longrightarrow> (\<exists>n::int. number_toFixed2 (Fin x) = round_double (of_int n / 100)
                    \<and> \<bar>of_int n / 100 - x\<bar> \<le> 1 / 200))
   \<and> pct_change (Fin 25) (Fin 20) = Fin 25
   \<and> (isFinite (val p) \<and> val p \<noteq> Fin 0
      \<longrightarrow> (\<exists>r. fromFRED_quote (l # p # rest) = Inr r
               \<and> changePercent r = Some (pct_change (val l) (val p))))
   \<and> (3 \<le> length lines \<and> 5 \<le> length (split_on (CHR '','') (lines ! (length lines - 1)))
        \<and> isFinite (close_of_row (lines ! (length lines - 1)))
        \<and> isFinite (close_of_row (lines ! (length lines - 2)))
        \<and> close_of_row (lines ! (length lines - 2)) \<noteq> Fin 0
      \<longrightarrow> (\<exists>r. fromCBOE_latest lines = Inr r
               \<and> changePercent r = Some (pct_change (close_of_row (lines ! (length lines - 1)))
                                                     (close_of_row (lines ! (length lines - 2)))))
          \<and> (\<exists>r. fromStooq_latest lines = Inr r
               \<and> changePercent r = Some (pct_change (close_of_row (lines ! (length lines - 1)))
                                                     (close_of_row (lines ! (length lines - 2))))))
   \<and> (isFinite (gvalue gp) \<and> gvalue gp \<noteq> Fin 0
      \<longrightarrow> (\<exists>r. fredLatestPair_latest sid (xs @ [gp, gl]) = Inr r
               \<and> pct r = Some (pct_change (gvalue gl) (gvalue gp)))
          \<and> (\<exists>r. fredLatestPair_all_latest sid (xs @ [gp, gl]) = Inr r
               \<and> ppct r = Some (pct_change (gvalue gl) (gvalue gp))))
   \<and> (2 \<le> length obs \<and> isFinite (to_parseFloat (get (obs ! 0) ''value''))
        \<and> isFinite (to_parseFloat (get (obs ! 1) ''value''))
        \<and> to_parseFloat (get (obs ! 1) ''value'') \<noteq> Fin 0
      \<longrightarrow> (\<exists>r. dxy_latest obs = Inr r
               \<and> changePercent r = Some (pct_change (to_parseFloat (get (obs ! 0) ''value''))
                                                     (to_parseFloat (get (obs ! 1) ''value'')))))"
proof (intro conjI impI)
  show "pct_change latest prev
          = number_toFixed2 (num_mul (num_div (num_sub latest prev) prev) (Fin 100))"
    by (simp add: pct_change_def)
  show "pct_change (Fin 25) (Fin 20) = Fin 25"
    by (rule pct_change_25_20)
next
  assume "\<bar>x\<bar> < 10 ^ 21"
  then show "\<exists>n::int. number_toFixed2 (Fin x) = round_double (of_int n / 100)
                    \<and> \<bar>of_int n / 100 - x\<bar> \<le> 1 / 200"
    by (rule number_toFixed2_rounds)
next
  assume "isFinite (val p) \<and> val p \<noteq> Fin 0"
  then show "\<exists>r. fromFRED_quote (l # p # rest) = Inr r
               \<and> changePercent r = Some (pct_change (val l) (val p))"
    by (simp add: fromFRED_quote_two)
next
  assume "3 \<le> length lines \<and> 5 \<le> length (split_on (CHR '','') (lines ! (length lines - 1)))
        \<and> isFinite (close_of_row (lines ! (length lines - 1)))
        \<and> isFinite (close_of_row (lines ! (length lines - 2)))
        \<and> close_of_row (lines ! (length lines - 2)) \<noteq> Fin 0"
  then show "\<exists>r. fromCBOE_latest lines = Inr r
               \<and> changePercent r = Some (pct_change (close_of_row (lines ! (length lines - 1)))
                                                     (close_of_row (lines ! (length lines - 2))))"
    by (simp add: fromCBOE_latest_rows Let_def)
next
  assume "3 \<le> length lines \<and> 5 \<le> length (split_on (CHR '','') (lines ! (length lines - 1)))
        \<and> isFinite (close_of_row (lines ! (length lines - 1)))
        \<and> isFinite (close_of_row (lines ! (length lines - 2)))
        \<and> close_of_row (lines ! (length lines - 2)) \<noteq> Fin 0"
  then show "\<exists>r. fromStooq_latest lines = Inr r
               \<and> changePercent r = Some (pct_change (close_of_row (lines ! (length lines - 1)))
                                                     (close_of_row (lines ! (length lines - 2))))"
    by (simp add: fromStooq_latest_rows Let_def)
next
  assume "isFinite (gvalue gp) \<and> gvalue gp \<noteq> Fin 0"
  then show "\<exists>r. fredLatestPair_latest sid (xs @ [gp, gl]) = Inr r
               \<and> pct r = Some (pct_change (gvalue gl) (gvalue gp))"
    by (simp add: fredLatestPair_latest_two)
next
  assume "isFinite (gvalue gp) \<and> gvalue gp \<noteq> Fin 0"
  then show "\<exists>r. fredLatestPair_all_latest sid (xs @ [gp, gl]) = Inr r
               \<and> ppct r = Some (pct_change (gvalue gl) (gvalue gp))"
    by (cases "gvalue gp") (simp_all add: fredLatestPair_all_latest_two)
next
  assume "2 \<le> length obs \<and> isFinite (to_parseFloat (get (obs ! 0) ''value''))
        \<and> isFinite (to_parseFloat (get (obs ! 1) ''value''))
        \<and> to_parseFloat (get (obs ! 1) ''value'') \<noteq> Fin 0"
  then show "\<exists>r. dxy_latest obs = Inr r
               \<and> changePercent r = Some (pct_change (to_parseFloat (get (obs ! 0) ''value''))
                                                     (to_parseFloat (get (obs ! 1) ''value'')))"
    by (simp add: dxy_latest_two Let_def)
qed

lemma zero_prev_cboe:
  "3 \<le> length lines_zero_prev
   \<and> close_of_row (lines_zero_prev ! (length lines_zero_prev - 2)) = Fin 0
   \<and> fromCBOE_latest lines_zero_prev
       = Inr \<lparr>price = Fin 12, changePercent = None, source = ''CBOE CSV''\<rparr>"
  by code_simp

lemma zero_prev_stooq:
  "3 \<le> length lines_zero_prev
   \<and> close_of_row (lines_zero_prev ! (length lines_zero_prev - 2)) = Fin 0
   \<and> fromStooq_latest lines_zero_prev
       = Inr \<lparr>price = Fin 12, changePercent = None, source = ''Stooq CSV''\<rparr>"
  by code_simp

lemma zero_prev_dxy:
  "2 \<le> length obs_zero_prior
   \<and> to_parseFloat (get (obs_zero_prior ! 1) ''value'') = Fin 0
   \<and> dxy_latest obs_zero_prior
       = Inr \<lparr>price = Fin 100, changePercent = Some PInf, source = ''FRED DTWEXBGS''\<rparr>"
  by code_simp

theorem zero_previous_gives_null_witness:
  "(\<exists>r. fromFRED_quote [\<lparr>date = JNull, val = Fin 12\<rparr>, \<lparr>date = JNull, val = Fin 0\<rparr>] = Inr r
        \<and> changePercent r = None)
   \<and> changePercent (projr (fromCBOE_latest lines_zero_prev)) = None
   \<and> changePercent (projr (fromStooq_latest lines_zero_prev)) = None
   \<and> (\<exists>r. fredLatestPair_latest ''S'' ([] @ [\<lparr>gdate = JNull, gvalue = Fin 0\<rparr>,
                                          \<lparr>gdate = JNull, gvalue = Fin 12\<rparr>]) = Inr r
        \<and> pct r = None)
   \<and> (\<exists>r. fredLatestPair_all_latest ''S'' ([] @ [\<lparr>gdate = JNull, gvalue = Fin 0\<rparr>,
                                              \<lparr>gdate = JNull, gvalue = Fin 12\<rparr>]) = Inr r
        \<and> ppct r = None)
   \<and> get (body (dxy_success (projr (dxy_latest obs_zero_prior)) ''T'')) ''changePercent'' = JNull"
proof -
  note T = zero_previous_gives_null
    [where p = "\<lparr>date = JNull, val = Fin 0\<rparr>" and l = "\<lparr>date = JNull, val = Fin 12\<rparr>"
       and rest = "[]" and lines = lines_zero_prev
       and ?r1.0 = "\<lparr>price = Fin 12, changePercent = None, source = ''CBOE CSV''\<rparr>"
       and ?r2.0 = "\<lparr>price = Fin 12, changePercent = None, source = ''Stooq CSV''\<rparr>"
       and gp = "\<lparr>gdate = JNull, gvalue = Fin 0\<rparr>" and gl = "\<lparr>gdate = JNull, gvalue = Fin 12\<rparr>"
       and xs = "[]" and sid = "''S''" and obs = obs_zero_prior
       and ?r3.0 = "\<lparr>price = Fin 100, changePercent = Some PInf, source = ''FRED DTWEXBGS''\<rparr>"
       and stamp = "''T''"]
  have v: "val \<lparr>date = JNull, val = Fin 0\<rparr> = Fin 0" by simp
  have g: "gvalue \<lparr>gdate = JNull, gvalue = Fin 0\<rparr> = Fin 0" by simp
  from T v have 1: "\<exists>r. fromFRED_quote [\<lparr>date = JNull, val = Fin 12\<rparr>, \<lparr>date = JNull, val = Fin 0\<rparr>] = Inr r
        \<and> changePercent r = None"
    by blast
  from T zero_prev_cboe
  have "changePercent \<lparr>price = Fin 12, changePercent = None, source = ''CBOE CSV''\<rparr> = None"
    by blast
  then have 2: "changePercent (projr (fromCBOE_latest lines_zero_prev)) = None"
    using zero_prev_cboe by simp
  from T zero_prev_stooq
  have "changePercent \<lparr>price = Fin 12, changePercent = None, source = ''Stooq CSV''\<rparr> = None"
    by blast
  then have 3: "changePercent (projr (fromStooq_latest lines_zero_prev)) = None"
    using zero_prev_stooq by simp
  from T g have 4: "(\<exists>r. fredLatestPair_latest ''S'' ([] @ [\<lparr>gdate = JNull, gvalue = Fin 0\<rparr>,
                                          \<lparr>gdate = JNull, gvalue = Fin 12\<rparr>]) = Inr r
        \<and> pct r = None)
   \<and> (\<exists>r. fredLatestPair_all_latest ''S'' ([] @ [\<lparr>gdate = JNull, gvalue = Fin 0\<rparr>,
                                              \<lparr>gdate = JNull, gvalue = Fin 12\<rparr>]) = Inr r
        \<and> ppct r = None)"
    by blast
  from T zero_prev_dxy
  have "get (body (dxy_success \<lparr>price = Fin 100, changePercent = Some PInf,
                                source = ''FRED DTWEXBGS''\<rparr> ''T'')) ''changePercent'' = JNull"
    by blast
  then have 5: "get (body (dxy_success (projr (dxy_latest obs_zero_prior)) ''T'')) ''changePercent''
                  = JNull"
    using zero_prev_dxy by simp
  from 1 2 3 4 5 show ?thesis by blast
qed

lemma rising_csv:
  "3 \<le> length lines_rising
   \<and> 5 \<le> length (split_on (CHR '','') (lines_rising ! (length lines_rising - 1)))
   \<and> isFinite (close_of_row (lines_rising ! (length lines_rising - 1)))
   \<and> isFinite (close_of_row (lines_rising ! (length lines_rising - 2)))
   \<and> close_of_row (lines_rising ! (length lines_rising - 2)) \<noteq> Fin 0"
  by code_simp

lemma rising_csv_values:
  "close_of_row (lines_rising ! (length lines_rising - 1)) = Fin 25"
  "close_of_row (lines_rising ! (length lines_rising - 2)) = Fin 20"
  by code_simp+

lemma rising_dxy:
  "2 \<le> length obs_rising \<and> isFinite (to_parseFloat (get (obs_rising ! 0) ''value''))
   \<and> isFinite (to_parseFloat (get (obs_rising ! 1) ''value''))
   \<and> to_parseFloat (get (obs_rising ! 1) ''value'') \<noteq> Fin 0"
  by code_simp

lemma rising_dxy_values:
  "to_parseFloat (get (obs_rising ! 0) ''value'') = Fin 25"
  "to_parseFloat (get (obs_rising ! 1) ''value'') = Fin 20"
  by code_simp+

theorem change_percent_two_decimals_witness:
  "(\<exists>n::int. number_toFixed2 (Fin (5 / 4)) = round_double (of_int n / 100)
             \<and> \<bar>of_int n / 100 - 5 / 4\<bar> \<le> (1 / 200 :: rat))
   \<and> (\<exists>r. fromFRED_quote [\<lparr>date = JNull, val = Fin 25\<rparr>, \<lparr>date = JNull, val = Fin 20\<rparr>] = Inr r
        \<and> changePercent r = Some (Fin 25))
   \<and> (\<exists>r. fromCBOE_latest lines_rising = Inr r \<and> changePercent r = Some (Fin 25))
   \<and> (\<exists>r. fromStooq_latest lines_rising = Inr r \<and> changePercent r = Some (Fin 25))
   \<and> (\<exists>r. fredLatestPair_latest ''S'' ([] @ [\<lparr>gdate = JNull, gvalue = Fin 20\<rparr>,
                                          \<lparr>gdate = JNull, gvalue = Fin 25\<rparr>]) = Inr r
        \<and> pct r = Some (Fin 25))
   \<and> (\<exists>r. fredLatestPair_all_latest ''S'' ([] @ [\<lparr>gdate = JNull, gvalue = Fin 20\<rparr>,
                                              \<lparr>gdate = JNull, gvalue = Fin 25\<rparr>]) = Inr r
        \<and> ppct r = Some (Fin 25))
   \<and> (\<exists>r. dxy_latest obs_rising = Inr r \<and> changePercent r = Some (Fin 25))"
proof -
  note T = change_percent_two_decimals
    [where x = "5 / 4" and p = "\<lparr>date = JNull, val = Fin 20\<rparr>"
       and l = "\<lparr>date = JNull, val = Fin 25\<rparr>" and rest = "[]" and lines = lines_rising
       and gp = "\<lparr>gdate = JNull, gvalue = Fin 20\<rparr>" and gl = "\<lparr>gdate = JNull, gvalue = Fin 25\<rparr>"
       and xs = "[]" and sid = "''S''" and obs = obs_rising]
  note T2 = T [THEN conjunct2, THEN conjunct1]
  note T3 = T [THEN conjunct2, THEN conjunct2, THEN conjunct1]
  note T4 = T [THEN conjunct2, THEN conjunct2, THEN conjunct2, THEN conjunct1]
  note T5 = T [THEN conjunct2, THEN conjunct2, THEN conjunct2, THEN conjunct2, THEN conjunct1]
  note T6 = T [THEN conjunct2, THEN conjunct2, THEN conjunct2, THEN conjunct2, THEN conjunct2,
               THEN conjunct1]
  note T7 = T [THEN conjunct2, THEN conjunct2, THEN conjunct2, THEN conjunct2, THEN conjunct2,
               THEN conjunct2]
  note p = T3
  have x: "\<bar>5 / 4 :: rat\<bar> < 10 ^ 21" by simp
  have v: "isFinite (val \<lparr>date = JNull, val = Fin 20\<rparr>) \<and> val \<lparr>date = JNull, val = Fin 20\<rparr> \<noteq> Fin 0"
    by simp
  have g: "isFinite (gvalue \<lparr>gdate = JNull, gvalue = Fin 20\<rparr>)
           \<and> gvalue \<lparr>gdate = JNull, gvalue = Fin 20\<rparr> \<noteq> Fin 0"
    by simp
  from T2 [THEN mp, OF x] have 1: "\<exists>n::int. number_toFixed2 (Fin (5 / 4)) = round_double (of_int n / 100)
             \<and> \<bar>of_int n / 100 - 5 / 4\<bar> \<le> (1 / 200 :: rat)" .
  from T4 [THEN mp, OF v] have "\<exists>r. fromFRED_quote [\<lparr>date = JNull, val = Fin 25\<rparr>, \<lparr>date = JNull, val = Fin 20\<rparr>] = Inr r
        \<and> changePercent r = Some (pct_change (val \<lparr>date = JNull, val = Fin 25\<rparr>)
                                              (val \<lparr>date = JNull, val = Fin 20\<rparr>))" .
  then have 2: "\<exists>r. fromFRED_quote [\<lparr>date = JNull, val = Fin 25\<rparr>, \<lparr>date = JNull, val = Fin 20\<rparr>] = Inr r
        \<and> changePercent r = Some (Fin 25)"
    by (simp add: p)
  from T5 [THEN mp, OF rising_csv] have
    "(\<exists>r. fromCBOE_latest lines_rising = Inr r
        \<and> changePercent r = Some (pct_change (close_of_row (lines_rising ! (length lines_rising - 1)))
                                              (close_of_row (lines_rising ! (length lines_rising - 2)))))
     \<and> (\<exists>r. fromStooq_latest lines_rising = Inr r
        \<and> changePercent r = Some (pct_change (close_of_row (lines_rising ! (length lines_rising - 1)))
                                              (close_of_row (lines_rising ! (length lines_rising - 2)))))" .
  then have 3: "(\<exists>r. fromCBOE_latest lines_rising = Inr r \<and> changePercent r = Some (Fin 25))
     \<and> (\<exists>r. fromStooq_latest lines_rising = Inr r \<and> changePercent r = Some (Fin 25))"
    unfolding rising_csv_values p .
  from T6 [THEN mp, OF g] have
    "(\<exists>r. fredLatestPair_latest ''S'' ([] @ [\<lparr>gdate = JNull, gvalue = Fin 20\<rparr>,
                                          \<lparr>gdate = JNull, gvalue = Fin 25\<rparr>]) = Inr r
        \<and> pct r = Some (pct_change (gvalue \<lparr>gdate = JNull, gvalue = Fin 25\<rparr>)
                                    (gvalue \<lparr>gdate = JNull, gvalue = Fin 20\<rparr>)))
     \<and> (\<exists>r. fredLatestPair_all_latest ''S'' ([] @ [\<lparr>gdate = JNull, gvalue = Fin 20\<rparr>,
                                              \<lparr>gdate = JNull, gvalue = Fin 25\<rparr>]) = Inr r
        \<and> ppct r = Some (pct_change (gvalue \<lparr>gdate = JNull, gvalue = Fin 25\<rparr>)
                                     (gvalue \<lparr>gdate = JNull, gvalue = Fin 20\<rparr>)))" .
  then have 4: "(\<exists>r. fredLatestPair_latest ''S'' ([] @ [\<lparr>gdate = JNull, gvalue = Fin 20\<rparr>,
                                          \<lparr>gdate = JNull, gvalue = Fin 25\<rparr>]) = Inr r
        \<and> pct r = Some (Fin 25))
     \<and> (\<exists>r. fredLatestPair_all_latest ''S'' ([] @ [\<lparr>gdate = JNull, gvalue = Fin 20\<rparr>,
                                              \<lparr>gdate = JNull, gvalue = Fin 25\<rparr>]) = Inr r
        \<and> ppct r = Some (Fin 25))"
    by (simp add: p)
  from T7 [THEN mp, OF rising_dxy] have
    "\<exists>r. dxy_latest obs_rising = Inr r
        \<and> changePercent r = Some (pct_change (to_parseFloat (get (obs_rising ! 0) ''value''))
                                              (to_parseFloat (get (obs_rising ! 1) ''value'')))" .
  then have 5: "\<exists>r. dxy_latest obs_rising = Inr r \<and> changePercent r = Some (Fin 25)"
    unfolding rising_dxy_values p .
  from 1 2 3 4 5 show ?thesis by (intro conjI) (erule conjunct1 conjunct2 | assumption)+
qed

text \<open>
  C4 fails in fetchAllData.js: \<open>fetchTwelve\<close> returns what \<open>Number\<close> makes of \<open>close\<close>
  without looking at it.  For a quote whose \<open>close\<close> is \<open>N/A\<close> it returns a price that is
  \<open>NaN\<close>, where \<open>tdGold\<close> of gold.js, reading the same provider, throws.
\<close>

theorem fetchTwelve_returns_NaN_price:
  "fetchTwelve ''SPY'' world_bad_close
     = (Inr \<lparr>pprice = NaN, ppct = Some (Fin (1 / 2))\<rparr>,
        [Fetch ''https://api.twelvedata.com/quote?symbol=SPY&apikey=tk''])
   \<and> fst (tdGold world_bad_close) = Inl (Error ''TwelveData: bad price'')"
  by code_simp

section \<open>Which observations are selected\<close>










lemma csv_gap_lines: "nonempty_lines (trim csv_gap) = lines_gap"
  by code_simp


end
